theory Spec2Isabelle
  imports Main "HOL-Library.Sublist"
begin

section \<open>The delivery channel resource of the AWS Config service\<close>

text \<open>
  A shallow embedding of \<^verbatim>\<open>aws/resource_aws_config_delivery_channel.go\<close>: the three
  operations \<^verbatim>\<open>resourceAwsConfigDeliveryChannelPut\<close> (create and update),
  \<^verbatim>\<open>resourceAwsConfigDeliveryChannelRead\<close> and \<^verbatim>\<open>resourceAwsConfigDeliveryChannelDelete\<close>.
  The remote service is a parameter: a record of three operations over a state of the
  service, of any type. Every remote call is appended to a trace, together with what it
  returned, so that statements about how many calls an operation makes can be written.
\<close>

subsection \<open>Wire objects\<close>

text \<open>
  \<^verbatim>\<open>configservice.DeliveryChannel\<close> and \<^verbatim>\<open>configservice.ConfigSnapshotDeliveryProperties\<close>:
  every field is a pointer in Go, \<open>None\<close> is the nil pointer (the field is not sent).
\<close>

record ConfigSnapshotDeliveryProperties =
  DeliveryFrequency :: "string option"

record DeliveryChannel =
  ConfigSnapshotDeliveryProperties :: "ConfigSnapshotDeliveryProperties option"
  Name :: "string option"
  S3BucketName :: "string option"
  S3KeyPrefix :: "string option"
  S3KmsKeyArn :: "string option"
  SnsTopicARN :: "string option"

subsection \<open>Errors\<close>

text \<open>
  An error returned by the service client is an \<^verbatim>\<open>awserr.Error\<close> with a code and a
  message, or some other error value. The errors of the resource functions are built from
  them: \<open>Errorf prefix err\<close> is \<^verbatim>\<open>fmt.Errorf(prefix + "%s", err)\<close>, \<open>ErrorfReceived\<close> is
  the format of line 153 with its three arguments, \<open>TimeoutError\<close> is what the retry
  executor returns when its window has elapsed, \<open>Panic\<close> is a runtime panic.
\<close>

datatype remote_error =
    AwsErr (Code: string) (Message: string)
  | PlainErr string

datatype go_error =
    Remote remote_error
  | TimeoutError
  | Errorf string go_error
  | ErrorfReceived nat string "DeliveryChannel list"
  | Panic string

subsection \<open>The resource data\<close>

text \<open>
  \<^verbatim>\<open>schema.ResourceData\<close>, restricted to the schema of lines 28 to 68: the stored identity
  and one field per attribute. A string attribute that is not set is \<open>None\<close>; the
  attribute \<^verbatim>\<open>snapshot_delivery_properties\<close> is a list of blocks (at most one by the
  schema), each block a Go map from attribute names to strings, kept as an association
  list. The SDK fills a block with every key of its schema, so a block whose frequency
  is not set holds the zero value, the empty string, under \<^verbatim>\<open>delivery_frequency\<close>.

  \<open>Get\<close> and \<open>GetOk\<close> follow the documented contract of the plugin SDK: \<^verbatim>\<open>d.Get\<close>
  returns the zero value for an attribute that is not set, and \<^verbatim>\<open>d.GetOk\<close> reports
  \<^verbatim>\<open>ok\<close> only for an attribute set to a value that is not the zero value (here the
  result is \<open>Some v\<close> exactly when \<^verbatim>\<open>ok\<close> is true). \<^verbatim>\<open>d.Set\<close> with a nil string pointer
  leaves the attribute without a value. The defaults of the schema (the name
  \<^verbatim>\<open>default\<close>) are filled in by the SDK before the functions of this file run, so they
  are part of the resource data given here.
\<close>

type_synonym block = "(string \<times> string) list"

record ResourceData =
  ID :: string
  name :: "string option"
  s3_bucket_name :: "string option"
  s3_key_prefix :: "string option"
  s3_kms_key_arn :: "string option"
  sns_topic_arn :: "string option"
  snapshot_delivery_properties :: "block list"

definition Get :: "string option \<Rightarrow> string" where
  "Get a = (case a of None \<Rightarrow> [] | Some v \<Rightarrow> v)"

definition GetOk :: "string option \<Rightarrow> string option" where
  "GetOk a = (case a of None \<Rightarrow> None | Some v \<Rightarrow> if v = [] then None else Some v)"

definition GetOk_list :: "block list \<Rightarrow> block list option" where
  "GetOk_list p = (if p = [] then None else Some p)"

subsection \<open>The service client and the trace of remote calls\<close>

record 'c configconn =
  PutDeliveryChannel :: "DeliveryChannel \<Rightarrow> 'c \<Rightarrow> remote_error option \<times> 'c"
  DescribeDeliveryChannels :: "string list \<Rightarrow> 'c \<Rightarrow> (remote_error + DeliveryChannel list) \<times> 'c"
  DeleteDeliveryChannel :: "string \<Rightarrow> 'c \<Rightarrow> remote_error option \<times> 'c"

datatype call =
    PutCall DeliveryChannel "remote_error option"
  | DescribeCall "string list" "remote_error + DeliveryChannel list"
  | DeleteCall string "remote_error option"

record 'c world =
  remote :: 'c
  calls :: "call list"

definition conn_PutDeliveryChannel ::
  "'c configconn \<Rightarrow> DeliveryChannel \<Rightarrow> 'c world \<Rightarrow> remote_error option \<times> 'c world" where
  "conn_PutDeliveryChannel conn input w =
     (case PutDeliveryChannel conn input (remote w) of
        (err, c) \<Rightarrow> (err, \<lparr>remote = c, calls = calls w @ [PutCall input err]\<rparr>))"

definition conn_DescribeDeliveryChannels ::
  "'c configconn \<Rightarrow> string list \<Rightarrow> 'c world \<Rightarrow> (remote_error + DeliveryChannel list) \<times> 'c world" where
  "conn_DescribeDeliveryChannels conn input w =
     (case DescribeDeliveryChannels conn input (remote w) of
        (out, c) \<Rightarrow> (out, \<lparr>remote = c, calls = calls w @ [DescribeCall input out]\<rparr>))"

definition conn_DeleteDeliveryChannel ::
  "'c configconn \<Rightarrow> string \<Rightarrow> 'c world \<Rightarrow> remote_error option \<times> 'c world" where
  "conn_DeleteDeliveryChannel conn input w =
     (case DeleteDeliveryChannel conn input (remote w) of
        (err, c) \<Rightarrow> (err, \<lparr>remote = c, calls = calls w @ [DeleteCall input err]\<rparr>))"

subsection \<open>Helpers that the file uses and does not define\<close>

text \<open>
  Modelled from the spec: \<^verbatim>\<open>isAWSErr\<close>, a helper of the provider that is not in this file.
  Section 6 of the specification: classification matches the code of the remote error
  and, where a message is given, checks that the error's message contains it. An error
  that is not an \<^verbatim>\<open>awserr.Error\<close> matches nothing.
\<close>

definition isAWSErr :: "remote_error \<Rightarrow> string \<Rightarrow> string \<Rightarrow> bool" where
  "isAWSErr err code message =
     (case err of
        AwsErr c m \<Rightarrow> c = code \<and> sublist message m
      | PlainErr _ \<Rightarrow> False)"

text \<open>
  Modelled from the spec: the constant \<^verbatim>\<open>configservice.ErrCodeLastDeliveryChannelDeleteFailedException\<close>
  of the service's SDK, the "last delivery channel delete failed" code of section 6.
\<close>

definition ErrCodeLastDeliveryChannelDeleteFailedException :: string where
  "ErrCodeLastDeliveryChannelDeleteFailedException = ''LastDeliveryChannelDeleteFailedException''"

text \<open>\<^verbatim>\<open>time.Duration\<close> counts nanoseconds.\<close>

type_synonym Duration = int

definition Second :: Duration where
  "Second = 1000000000"

text \<open>
  \<^verbatim>\<open>resource.RetryError\<close>, built by \<^verbatim>\<open>resource.RetryableError\<close> and
  \<^verbatim>\<open>resource.NonRetryableError\<close>: an error and whether the operation may be run again.
\<close>

datatype RetryError =
    RetryableError go_error
  | NonRetryableError go_error

text \<open>
  Modelled from the spec: the loop of \<^verbatim>\<open>resource.Retry\<close> of the plugin SDK, which is not
  in this file; the retry policy of section 4.4. It runs the operation once at once; on
  success or on a terminal error it returns at once; on a retryable error it backs off
  and runs the operation again until the timeout elapses, and then returns a timeout
  error. Time is not modelled: the first argument is the number of further runs that fit
  into the window after the first one.
\<close>

primrec retry_attempts ::
  "nat \<Rightarrow> ('w \<Rightarrow> RetryError option \<times> 'w) \<Rightarrow> 'w \<Rightarrow> go_error option \<times> 'w" where
  "retry_attempts 0 f w =
     (case f w of
        (None, w') \<Rightarrow> (None, w')
      | (Some (RetryableError err), w') \<Rightarrow> (Some TimeoutError, w')
      | (Some (NonRetryableError err), w') \<Rightarrow> (Some err, w'))"
| "retry_attempts (Suc n) f w =
     (case f w of
        (None, w') \<Rightarrow> (None, w')
      | (Some (RetryableError err), w') \<Rightarrow> retry_attempts n f w'
      | (Some (NonRetryableError err), w') \<Rightarrow> (Some err, w'))"

text \<open>
  Modelled from the spec: \<^verbatim>\<open>resource.Retry\<close> of the plugin SDK, which is not in this
  file (section 4.4). The parameter \<open>sched\<close> gives, for a timeout, how many further runs
  the back-off schedule fits into it after the first one (the "attempt budget" of
  section 8).
\<close>

definition Retry ::
  "(Duration \<Rightarrow> nat) \<Rightarrow> Duration \<Rightarrow> ('w \<Rightarrow> RetryError option \<times> 'w) \<Rightarrow> 'w \<Rightarrow> go_error option \<times> 'w" where
  "Retry sched timeout f w = retry_attempts (sched timeout) f w"

text \<open>
  Modelled from the spec: \<^verbatim>\<open>isResourceTimeoutError\<close>, a helper of the provider that is not
  in this file. It recognises the timeout error of the retry policy (section 4.4).
\<close>

definition isResourceTimeoutError :: "go_error option \<Rightarrow> bool" where
  "isResourceTimeoutError err = (err = Some TimeoutError)"

text \<open>
  Modelled from the spec: \<^verbatim>\<open>flattenConfigSnapshotDeliveryProperties\<close>, a helper of the
  provider that is not in this file. Section 4.2: the snapshot-delivery block is copied
  as the service reports it, one block holding the frequency when there is one.
\<close>

definition flattenConfigSnapshotDeliveryProperties ::
  "ConfigSnapshotDeliveryProperties \<Rightarrow> block list" where
  "flattenConfigSnapshotDeliveryProperties p =
     [case DeliveryFrequency p of
        None \<Rightarrow> []
      | Some v \<Rightarrow> [(''delivery_frequency'', v)]]"

subsection \<open>Read\<close>

text \<open>Lines 128 to 170.\<close>

definition resourceAwsConfigDeliveryChannelRead ::
  "'c configconn \<Rightarrow> ResourceData \<Rightarrow> 'c world \<Rightarrow> go_error option \<times> ResourceData \<times> 'c world" where
  "resourceAwsConfigDeliveryChannelRead conn d w =
     (case conn_DescribeDeliveryChannels conn [ID d] w of
        (Inl err, w') \<Rightarrow>
          (case err of
             AwsErr code msg \<Rightarrow>
               if code = ''NoSuchDeliveryChannelException''
               then (None, d\<lparr>ID := []\<rparr>, w')
               else (Some (Errorf ''Getting Delivery Channel failed: '' (Remote err)), d, w')
           | PlainErr _ \<Rightarrow>
               (Some (Errorf ''Getting Delivery Channel failed: '' (Remote err)), d, w'))
      | (Inr out, w') \<Rightarrow>
          if length out < 1 then (None, d\<lparr>ID := []\<rparr>, w')
          else if length out > 1 then (Some (ErrorfReceived (length out) (ID d) out), d, w')
          else
            (let channel = out ! 0;
                 d1 = d\<lparr>name := Name channel,
                        s3_bucket_name := S3BucketName channel,
                        s3_key_prefix := S3KeyPrefix channel,
                        s3_kms_key_arn := S3KmsKeyArn channel,
                        sns_topic_arn := SnsTopicARN channel\<rparr>;
                 d2 = (case ConfigSnapshotDeliveryProperties channel of
                         None \<Rightarrow> d1
                       | Some p \<Rightarrow>
                           d1\<lparr>snapshot_delivery_properties :=
                                 flattenConfigSnapshotDeliveryProperties p\<rparr>)
             in (None, d2, w')))"

subsection \<open>Put\<close>

text \<open>Lines 75 to 100: the wire object built from the resource data.\<close>

definition resourceAwsConfigDeliveryChannelPut_channel ::
  "ResourceData \<Rightarrow> go_error + DeliveryChannel" where
  "resourceAwsConfigDeliveryChannelPut_channel d =
     (let channel = \<lparr>ConfigSnapshotDeliveryProperties = None,
                      Name = Some (Get (name d)),
                      S3BucketName = Some (Get (s3_bucket_name d)),
                      S3KeyPrefix = None, S3KmsKeyArn = None, SnsTopicARN = None\<rparr>;
          channel = (case GetOk (s3_key_prefix d) of
                       Some v \<Rightarrow> channel\<lparr>S3KeyPrefix := Some v\<rparr>
                     | None \<Rightarrow> channel);
          channel = (case GetOk (s3_kms_key_arn d) of
                       Some v \<Rightarrow> channel\<lparr>S3KmsKeyArn := Some v\<rparr>
                     | None \<Rightarrow> channel);
          channel = (case GetOk (sns_topic_arn d) of
                       Some v \<Rightarrow> channel\<lparr>SnsTopicARN := Some v\<rparr>
                     | None \<Rightarrow> channel)
      in case GetOk_list (snapshot_delivery_properties d) of
           None \<Rightarrow> Inr channel
         | Some propertiesBlocks \<Rightarrow>
             (case propertiesBlocks of
                [] \<Rightarrow> Inl (Panic ''index out of range'')
              | block # _ \<Rightarrow>
                  (case map_of block ''delivery_frequency'' of
                     Some v \<Rightarrow>
                       Inr (channel\<lparr>ConfigSnapshotDeliveryProperties :=
                                        Some \<lparr>DeliveryFrequency = Some v\<rparr>\<rparr>)
                   | None \<Rightarrow> Inr channel)))"

text \<open>Lines 104 to 115: the function handed to the retry policy.\<close>

definition resourceAwsConfigDeliveryChannelPut_attempt ::
  "'c configconn \<Rightarrow> DeliveryChannel \<Rightarrow> 'c world \<Rightarrow> RetryError option \<times> 'c world" where
  "resourceAwsConfigDeliveryChannelPut_attempt conn input w =
     (case conn_PutDeliveryChannel conn input w of
        (None, w') \<Rightarrow> (None, w')
      | (Some err, w') \<Rightarrow>
          if isAWSErr err ''InsufficientDeliveryPolicyException'' []
          then (Some (RetryableError (Remote err)), w')
          else (Some (NonRetryableError (Remote err)), w'))"

text \<open>Lines 104 to 118: the retry phase and the attempt after a timeout.\<close>

definition resourceAwsConfigDeliveryChannelPut_write ::
  "(Duration \<Rightarrow> nat) \<Rightarrow> Duration \<Rightarrow> 'c configconn \<Rightarrow> DeliveryChannel \<Rightarrow> 'c world \<Rightarrow>
     go_error option \<times> 'c world" where
  "resourceAwsConfigDeliveryChannelPut_write sched PropagationTimeout conn input w =
     (case Retry sched PropagationTimeout
             (resourceAwsConfigDeliveryChannelPut_attempt conn input) w of
        (err, w1) \<Rightarrow>
          if isResourceTimeoutError err
          then (case conn_PutDeliveryChannel conn input w1 of
                  (err', w2) \<Rightarrow> (map_option Remote err', w2))
          else (err, w1))"

text \<open>
  Lines 72 to 126. \<^verbatim>\<open>iamwaiter.PropagationTimeout\<close> is a constant of another package of
  the provider and is a parameter here.
\<close>

definition resourceAwsConfigDeliveryChannelPut ::
  "(Duration \<Rightarrow> nat) \<Rightarrow> Duration \<Rightarrow> 'c configconn \<Rightarrow> ResourceData \<Rightarrow> 'c world \<Rightarrow>
     go_error option \<times> ResourceData \<times> 'c world" where
  "resourceAwsConfigDeliveryChannelPut sched PropagationTimeout conn d w =
     (case resourceAwsConfigDeliveryChannelPut_channel d of
        Inl p \<Rightarrow> (Some p, d, w)
      | Inr input \<Rightarrow>
          (case resourceAwsConfigDeliveryChannelPut_write sched PropagationTimeout conn input w of
             (Some err, w2) \<Rightarrow>
               (Some (Errorf ''Creating Delivery Channel failed: '' err), d, w2)
           | (None, w2) \<Rightarrow>
               resourceAwsConfigDeliveryChannelRead conn (d\<lparr>ID := Get (name d)\<rparr>) w2))"

subsection \<open>Delete\<close>

text \<open>Lines 178 to 188: the function handed to the retry policy.\<close>

definition resourceAwsConfigDeliveryChannelDelete_attempt ::
  "'c configconn \<Rightarrow> string \<Rightarrow> 'c world \<Rightarrow> RetryError option \<times> 'c world" where
  "resourceAwsConfigDeliveryChannelDelete_attempt conn input w =
     (case conn_DeleteDeliveryChannel conn input w of
        (Some err, w') \<Rightarrow>
          if isAWSErr err ErrCodeLastDeliveryChannelDeleteFailedException
               ''there is a running configuration recorder''
          then (Some (RetryableError (Remote err)), w')
          else (Some (NonRetryableError (Remote err)), w')
      | (None, w') \<Rightarrow> (None, w'))"

text \<open>Lines 172 to 197. Delete does not write to the resource data.\<close>

definition resourceAwsConfigDeliveryChannelDelete ::
  "(Duration \<Rightarrow> nat) \<Rightarrow> 'c configconn \<Rightarrow> ResourceData \<Rightarrow> 'c world \<Rightarrow>
     go_error option \<times> 'c world" where
  "resourceAwsConfigDeliveryChannelDelete sched conn d w =
     (case Retry sched (30 * Second)
             (resourceAwsConfigDeliveryChannelDelete_attempt conn (ID d)) w of
        (err, w1) \<Rightarrow>
          (case (if isResourceTimeoutError err
                 then (case conn_DeleteDeliveryChannel conn (ID d) w1 of
                         (err', w2) \<Rightarrow> (map_option Remote err', w2))
                 else (err, w1)) of
             (Some err, w2) \<Rightarrow>
               (Some (Errorf ''Unable to delete delivery channel: '' err), w2)
           | (None, w2) \<Rightarrow> (None, w2)))"

subsection \<open>Simulated services\<close>

text \<open>
  A service whose put and delete calls fail with the error \<open>e\<close> for the first \<open>n\<close> calls
  and succeed afterwards; its state counts the calls. Describe always answers \<open>out\<close>.
\<close>

definition flaky_conn ::
  "nat \<Rightarrow> remote_error \<Rightarrow> (remote_error + DeliveryChannel list) \<Rightarrow> nat configconn" where
  "flaky_conn n e out =
     \<lparr>PutDeliveryChannel = (\<lambda>input c. (if c < n then Some e else None, Suc c)),
      DescribeDeliveryChannels = (\<lambda>names c. (out, c)),
      DeleteDeliveryChannel = (\<lambda>input c. (if c < n then Some e else None, Suc c))\<rparr>"

text \<open>
  A service that keeps one object per name: put replaces the object stored under the
  name of its argument, describe returns the stored objects of the requested names, and
  delete removes one.
\<close>

definition echo_conn :: "(string \<Rightarrow> DeliveryChannel option) configconn" where
  "echo_conn =
     \<lparr>PutDeliveryChannel =
        (\<lambda>input s. case Name input of
                      None \<Rightarrow> (Some (AwsErr ''ValidationException'' ''name is missing''), s)
                    | Some n \<Rightarrow> (None, s(n \<mapsto> input))),
      DescribeDeliveryChannels = (\<lambda>names s. (Inr (List.map_filter s names), s)),
      DeleteDeliveryChannel =
        (\<lambda>input s. case s input of
                      None \<Rightarrow> (Some (AwsErr ''NoSuchDeliveryChannelException'' input), s)
                    | Some _ \<Rightarrow> (None, s(input := None)))\<rparr>"

subsection \<open>Sample inputs\<close>

text \<open>
  The resource data of the end-to-end example of the specification (section 8), the wire
  object a service stores for it, and a world in which no remote call has been made.
\<close>

definition spec_default :: ResourceData where
  "spec_default =
     \<lparr>ID = [], name = Some ''default'', s3_bucket_name = Some ''my-bucket'',
      s3_key_prefix = None, s3_kms_key_arn = None, sns_topic_arn = None,
      snapshot_delivery_properties = []\<rparr>"

definition channel_default :: DeliveryChannel where
  "channel_default =
     \<lparr>ConfigSnapshotDeliveryProperties = None,
      Name = Some ''default'', S3BucketName = Some ''my-bucket'',
      S3KeyPrefix = None, S3KmsKeyArn = None, SnsTopicARN = None\<rparr>"

definition world0 :: "'c \<Rightarrow> 'c world" where
  "world0 c = \<lparr>remote = c, calls = []\<rparr>"

text \<open>
  The same resource with a key prefix and an hourly snapshot delivery, its wire object,
  and the resource with a snapshot-delivery block whose frequency is not set, together
  with a key prefix, an encryption key and a topic that are the empty string.
\<close>

definition spec_hourly :: ResourceData where
  "spec_hourly =
     spec_default\<lparr>s3_key_prefix := Some ''logs'',
                  snapshot_delivery_properties := [[(''delivery_frequency'', ''One_Hour'')]]\<rparr>"

definition channel_hourly :: DeliveryChannel where
  "channel_hourly =
     channel_default\<lparr>ConfigSnapshotDeliveryProperties :=
                       Some \<lparr>DeliveryFrequency = Some ''One_Hour''\<rparr>,
                     S3KeyPrefix := Some ''logs''\<rparr>"

definition spec_unset_frequency :: ResourceData where
  "spec_unset_frequency =
     spec_default\<lparr>s3_key_prefix := Some [], s3_kms_key_arn := Some [],
                  sns_topic_arn := Some [],
                  snapshot_delivery_properties := [[(''delivery_frequency'', [])]]\<rparr>"

text \<open>
  Remote errors: the two transient ones, one with the code of the second and another
  message, and one with another code. The sample schedule fits one further run into the
  30 seconds of Delete and two into any other window.
\<close>

definition err_insufficient_policy :: remote_error where
  "err_insufficient_policy =
     AwsErr ''InsufficientDeliveryPolicyException''
       ''Insufficient delivery policy to s3 bucket: my-bucket''"

definition err_recorder_running :: remote_error where
  "err_recorder_running =
     AwsErr ErrCodeLastDeliveryChannelDeleteFailedException
       ''Failed to delete last specified delivery channel, because there is a running configuration recorder.''"

definition err_last_channel_other :: remote_error where
  "err_last_channel_other =
     AwsErr ErrCodeLastDeliveryChannelDeleteFailedException ''Failed to delete the channel.''"

definition err_access_denied :: remote_error where
  "err_access_denied = AwsErr ''AccessDeniedException'' ''not authorized''"

definition sched_sample :: "Duration \<Rightarrow> nat" where
  "sched_sample t = (if t = 30 * Second then Suc 0 else Suc (Suc 0))"

section \<open>Evaluation of the sample inputs\<close>

lemmas sample_defs =
  flaky_conn_def world0_def spec_default_def spec_hourly_def channel_default_def
  channel_hourly_def spec_unset_frequency_def err_insufficient_policy_def
  err_recorder_running_def err_last_channel_other_def err_access_denied_def
  sched_sample_def Second_def ErrCodeLastDeliveryChannelDeleteFailedException_def

lemmas op_defs =
  resourceAwsConfigDeliveryChannelDelete_def resourceAwsConfigDeliveryChannelDelete_attempt_def
  resourceAwsConfigDeliveryChannelPut_def resourceAwsConfigDeliveryChannelPut_write_def
  resourceAwsConfigDeliveryChannelPut_attempt_def resourceAwsConfigDeliveryChannelPut_channel_def
  resourceAwsConfigDeliveryChannelRead_def
  conn_DeleteDeliveryChannel_def conn_PutDeliveryChannel_def conn_DescribeDeliveryChannels_def
  Retry_def isResourceTimeoutError_def isAWSErr_def Get_def GetOk_def GetOk_list_def
  flattenConfigSnapshotDeliveryProperties_def sublist_Cons_right

section \<open>Classification of remote errors and the resource data\<close>

lemma isAWSErr_iff:
  "isAWSErr e code msg \<longleftrightarrow> (\<exists>m. e = AwsErr code m \<and> sublist msg m)"
  by (cases e) (auto simp: isAWSErr_def)

lemma GetOk_nonempty: "GetOk a \<noteq> Some []"
  by (auto simp: GetOk_def split: option.splits)

lemma GetOk_idem: "GetOk (GetOk a) = GetOk a"
  by (auto simp: GetOk_def split: option.splits)

text \<open>The wire object in closed form: building it never panics.\<close>

lemma Put_channel_Inr:
  "resourceAwsConfigDeliveryChannelPut_channel d =
     Inr \<lparr>ConfigSnapshotDeliveryProperties =
            (case snapshot_delivery_properties d of
               [] \<Rightarrow> None
             | block # _ \<Rightarrow> map_option (\<lambda>v. \<lparr>DeliveryFrequency = Some v\<rparr>) (map_of block ''delivery_frequency'')),
          Name = Some (Get (name d)),
          S3BucketName = Some (Get (s3_bucket_name d)),
          S3KeyPrefix = GetOk (s3_key_prefix d),
          S3KmsKeyArn = GetOk (s3_kms_key_arn d),
          SnsTopicARN = GetOk (sns_topic_arn d)\<rparr>"
  by (auto simp: resourceAwsConfigDeliveryChannelPut_channel_def GetOk_list_def Let_def split: option.splits list.splits)

section \<open>Read\<close>

lemma Read_one:
  assumes "DescribeDeliveryChannels conn [ID d] (remote w) = (Inr [channel], c)"
  shows "resourceAwsConfigDeliveryChannelRead conn d w =
           (None,
            (case ConfigSnapshotDeliveryProperties channel of
               None \<Rightarrow> d\<lparr>name := Name channel,
                        s3_bucket_name := S3BucketName channel,
                        s3_key_prefix := S3KeyPrefix channel,
                        s3_kms_key_arn := S3KmsKeyArn channel,
                        sns_topic_arn := SnsTopicARN channel\<rparr>
             | Some p \<Rightarrow> d\<lparr>name := Name channel,
                        s3_bucket_name := S3BucketName channel,
                        s3_key_prefix := S3KeyPrefix channel,
                        s3_kms_key_arn := S3KmsKeyArn channel,
                        sns_topic_arn := SnsTopicARN channel,
                        snapshot_delivery_properties :=
                          flattenConfigSnapshotDeliveryProperties p\<rparr>),
            \<lparr>remote = c, calls = calls w @ [DescribeCall [ID d] (Inr [channel])]\<rparr>)"
  using assms
  by (auto simp: resourceAwsConfigDeliveryChannelRead_def conn_DescribeDeliveryChannels_def
        Let_def split: option.splits)

text \<open>Read makes one describe call, whatever it returns, and never returns a timeout.\<close>

lemma Read_calls:
  "\<exists>e d' c out. resourceAwsConfigDeliveryChannelRead conn d w =
      (e, d', \<lparr>remote = c, calls = calls w @ [DescribeCall [ID d] out]\<rparr>)
      \<and> e \<noteq> Some TimeoutError"
  by (auto simp: resourceAwsConfigDeliveryChannelRead_def conn_DescribeDeliveryChannels_def
        Let_def split: option.splits prod.splits sum.splits remote_error.splits)

text \<open>
  C5. When the describe call fails with the code \<^verbatim>\<open>NoSuchDeliveryChannelException\<close>, or
  returns no object at all, Read returns no error and clears the stored identity; nothing
  else in the resource data changes, and one describe call has been made.
\<close>

theorem Read_absent_clears_identity:
  assumes "DescribeDeliveryChannels conn [ID d] (remote w) = (out, c)"
      and "(\<exists>msg. out = Inl (AwsErr ''NoSuchDeliveryChannelException'' msg)) \<or> out = Inr []"
  shows "resourceAwsConfigDeliveryChannelRead conn d w =
           (None, d\<lparr>ID := []\<rparr>, \<lparr>remote = c, calls = calls w @ [DescribeCall [ID d] out]\<rparr>)"
  using assms
  by (auto simp: resourceAwsConfigDeliveryChannelRead_def conn_DescribeDeliveryChannels_def)

theorem Read_absent_clears_identity_witness:
  "resourceAwsConfigDeliveryChannelRead
     (flaky_conn 0 (PlainErr []) (Inl (AwsErr ''NoSuchDeliveryChannelException'' ''gone'')))
     (spec_default\<lparr>ID := ''default''\<rparr>) (world0 0) =
   (None, spec_default,
    \<lparr>remote = 0,
     calls = [DescribeCall [''default'']
                (Inl (AwsErr ''NoSuchDeliveryChannelException'' ''gone''))]\<rparr>)
   \<and> resourceAwsConfigDeliveryChannelRead
     (flaky_conn 0 (PlainErr []) (Inr []))
     (spec_default\<lparr>ID := ''default''\<rparr>) (world0 0) =
   (None, spec_default, \<lparr>remote = 0, calls = [DescribeCall [''default''] (Inr [])]\<rparr>)"
  using Read_absent_clears_identity
          [of "flaky_conn 0 (PlainErr []) (Inl (AwsErr ''NoSuchDeliveryChannelException'' ''gone''))"
              "spec_default\<lparr>ID := ''default''\<rparr>" "world0 0"
              "Inl (AwsErr ''NoSuchDeliveryChannelException'' ''gone'')" 0]
        Read_absent_clears_identity
          [of "flaky_conn 0 (PlainErr []) (Inr [])"
              "spec_default\<lparr>ID := ''default''\<rparr>" "world0 0" "Inr []" 0]
  by (simp add: flaky_conn_def spec_default_def world0_def)

text \<open>
  C6. When the describe call returns more than one object, Read fails with the error of
  line 153, which carries the number of objects, the requested identity and the objects
  themselves; the resource data, the stored identity included, is returned as it was.
\<close>

theorem Read_rejects_multiple_matches:
  assumes "DescribeDeliveryChannels conn [ID d] (remote w) = (Inr out, c)"
      and "length out > 1"
  shows "resourceAwsConfigDeliveryChannelRead conn d w =
           (Some (ErrorfReceived (length out) (ID d) out), d,
            \<lparr>remote = c, calls = calls w @ [DescribeCall [ID d] (Inr out)]\<rparr>)"
  using assms
  by (auto simp: resourceAwsConfigDeliveryChannelRead_def conn_DescribeDeliveryChannels_def)

theorem Read_rejects_multiple_matches_witness:
  "resourceAwsConfigDeliveryChannelRead
     (flaky_conn 0 (PlainErr []) (Inr [channel_default, channel_default]))
     (spec_default\<lparr>ID := ''default''\<rparr>) (world0 0) =
   (Some (ErrorfReceived 2 ''default'' [channel_default, channel_default]),
    spec_default\<lparr>ID := ''default''\<rparr>,
    \<lparr>remote = 0,
     calls = [DescribeCall [''default''] (Inr [channel_default, channel_default])]\<rparr>)"
  using Read_rejects_multiple_matches
          [of "flaky_conn 0 (PlainErr []) (Inr [channel_default, channel_default])"
              "spec_default\<lparr>ID := ''default''\<rparr>" "world0 0"
              "[channel_default, channel_default]" 0]
  by (simp add: flaky_conn_def spec_default_def world0_def)

text \<open>
  C3, as amended. When the describe call returns exactly one object, Read returns no
  error, keeps the stored identity and copies the five string fields of the object. The
  snapshot-delivery block of the resource data is written only when the object carries
  one, and is then the block the service reports; when the object carries none, the
  block of the resource data is left exactly as it was before the Read (it is absent
  afterwards when it was absent before, and Read creates no block of its own).
\<close>

theorem Read_snapshot_block:
  assumes "DescribeDeliveryChannels conn [ID d] (remote w) = (Inr [channel], c)"
  shows "\<exists>d'. resourceAwsConfigDeliveryChannelRead conn d w =
           (None, d', \<lparr>remote = c, calls = calls w @ [DescribeCall [ID d] (Inr [channel])]\<rparr>)
       \<and> ID d' = ID d \<and> name d' = Name channel
       \<and> s3_bucket_name d' = S3BucketName channel
       \<and> s3_key_prefix d' = S3KeyPrefix channel
       \<and> s3_kms_key_arn d' = S3KmsKeyArn channel
       \<and> sns_topic_arn d' = SnsTopicARN channel
       \<and> snapshot_delivery_properties d' =
           (case ConfigSnapshotDeliveryProperties channel of
              None \<Rightarrow> snapshot_delivery_properties d
            | Some p \<Rightarrow> flattenConfigSnapshotDeliveryProperties p)"
  using Read_one[OF assms] by (auto split: option.splits)

theorem Read_snapshot_block_witness:
  "resourceAwsConfigDeliveryChannelRead
     (flaky_conn 0 err_access_denied (Inr [channel_default]))
     (spec_hourly\<lparr>ID := ''default''\<rparr>) (world0 0) =
   (None, spec_hourly\<lparr>ID := ''default'', s3_key_prefix := None\<rparr>,
    \<lparr>remote = 0, calls = [DescribeCall [''default''] (Inr [channel_default])]\<rparr>)
   \<and> resourceAwsConfigDeliveryChannelRead
     (flaky_conn 0 err_access_denied (Inr [channel_hourly]))
     (spec_default\<lparr>ID := ''default''\<rparr>) (world0 0) =
   (None, spec_hourly\<lparr>ID := ''default''\<rparr>,
    \<lparr>remote = 0, calls = [DescribeCall [''default''] (Inr [channel_hourly])]\<rparr>)"
  using Read_snapshot_block [of "flaky_conn 0 err_access_denied (Inr [channel_default])"
          "spec_hourly\<lparr>ID := ''default''\<rparr>" "world0 0" channel_default 0]
        Read_snapshot_block [of "flaky_conn 0 err_access_denied (Inr [channel_hourly])"
          "spec_default\<lparr>ID := ''default''\<rparr>" "world0 0" channel_hourly 0]
  by (simp add: resourceAwsConfigDeliveryChannelRead_def conn_DescribeDeliveryChannels_def
        flaky_conn_def world0_def spec_hourly_def spec_default_def channel_default_def
        channel_hourly_def flattenConfigSnapshotDeliveryProperties_def)

text \<open>
  The claim as stated, without the amendment, fails: the service reports an object with no
  snapshot-delivery block, the resource data held an hourly block before the Read, and
  it still holds that block after the Read.
\<close>

theorem Read_keeps_snapshot_block_of_state:
  "ConfigSnapshotDeliveryProperties channel_default = None
   \<and> snapshot_delivery_properties
       (fst (snd (resourceAwsConfigDeliveryChannelRead
                    (flaky_conn 0 err_access_denied (Inr [channel_default]))
                    (spec_hourly\<lparr>ID := ''default''\<rparr>) (world0 0))))
     = [[(''delivery_frequency'', ''One_Hour'')]]"
  by (simp add: resourceAwsConfigDeliveryChannelRead_def conn_DescribeDeliveryChannels_def
        flaky_conn_def world0_def spec_hourly_def spec_default_def channel_default_def)

section \<open>The wire object of Put\<close>

text \<open>
  C2. The wire object carries only what the resource data holds: an attribute that is
  absent is omitted, and no empty string stands in for it. Lines 81 to 89 do so for the
  key prefix, the encryption key and the topic, which go through \<^verbatim>\<open>GetOk\<close>. Lines 91
  to 100 do not for the frequency: they only ask whether the block has the key. At the
  resource data below the frequency of the block is not set, and the three sibling
  attributes are the empty string; the siblings are omitted from the wire object, and
  the frequency is sent as the empty string.
\<close>

theorem Put_channel_sends_empty_frequency:
  "resourceAwsConfigDeliveryChannelPut_channel spec_unset_frequency =
     Inr \<lparr>ConfigSnapshotDeliveryProperties = Some \<lparr>DeliveryFrequency = Some []\<rparr>,
          Name = Some ''default'', S3BucketName = Some ''my-bucket'',
          S3KeyPrefix = None, S3KmsKeyArn = None, SnsTopicARN = None\<rparr>"
  by (simp add: resourceAwsConfigDeliveryChannelPut_channel_def spec_unset_frequency_def
        spec_default_def Get_def GetOk_def GetOk_list_def)

section \<open>The trace of the retry policy\<close>

text \<open>
  The function handed to the retry policy makes one remote call and classifies what it
  returns. For such a function, the policy's calls are a run of retryable errors followed
  by one last call; it returns the timeout error exactly when the last call is a
  retryable error too, and then it has made all the calls of its window.
\<close>

lemma retry_attempts_trace:
  assumes f: "\<And>w. \<exists>out w'. f w = ((case out of None \<Rightarrow> None | Some e \<Rightarrow> Some (if P e then RetryableError (Remote e) else NonRetryableError (Remote e))), w') \<and> calls w' = calls w @ [mk out]"
  shows "retry_attempts n f w = (r, w1) \<Longrightarrow>
     \<exists>es out. calls w1 = calls w @ map (\<lambda>e. mk (Some e)) es @ [mk out]
        \<and> (\<forall>e\<in>set es. P e) \<and> length es \<le> n
        \<and> r = (case out of None \<Rightarrow> None | Some e \<Rightarrow> if P e then Some TimeoutError else Some (Remote e))
        \<and> (r = Some TimeoutError \<longrightarrow> length es = n)"
proof (induction n arbitrary: w)
  case 0
  from f[of w] obtain out w' where fw: "f w = ((case out of None \<Rightarrow> None | Some e \<Rightarrow> Some (if P e then RetryableError (Remote e) else NonRetryableError (Remote e))), w')" and c: "calls w' = calls w @ [mk out]" by blast
  from 0 fw c show ?case
    by (cases out) (auto split: if_splits intro!: exI[of _ "[]"])
next
  case (Suc n)
  from f[of w] obtain out w' where fw: "f w = ((case out of None \<Rightarrow> None | Some e \<Rightarrow> Some (if P e then RetryableError (Remote e) else NonRetryableError (Remote e))), w')" and c: "calls w' = calls w @ [mk out]" by blast
  show ?case
  proof (cases out)
    case None
    with Suc.prems fw c show ?thesis by (auto intro!: exI[of _ "[]"])
  next
    case (Some e)
    show ?thesis
    proof (cases "P e")
      case False
      with Some Suc.prems fw c show ?thesis by (auto intro!: exI[of _ "[]"])
    next
      case True
      with Some Suc.prems fw have "retry_attempts n f w' = (r, w1)" by simp
      from Suc.IH[OF this] obtain es out' where
        h: "calls w1 = calls w' @ map (\<lambda>e. mk (Some e)) es @ [mk out']"
          "\<forall>e\<in>set es. P e" "length es \<le> n"
          "r = (case out' of None \<Rightarrow> None | Some e \<Rightarrow> if P e then Some TimeoutError else Some (Remote e))"
          "r = Some TimeoutError \<longrightarrow> length es = n" by blast
      show ?thesis
        apply (rule exI[of _ "e # es"], rule exI[of _ out'])
        using h c Some True by auto
    qed
  qed
qed

lemma retry_timeout_trace:
  assumes f: "\<And>w. \<exists>out w'. f w = ((case out of None \<Rightarrow> None | Some e \<Rightarrow> Some (if P e then RetryableError (Remote e) else NonRetryableError (Remote e))), w') \<and> calls w' = calls w @ [mk out]"
      and r: "Retry sched t f w = (Some TimeoutError, w1)"
  shows "\<exists>es. calls w1 = calls w @ map (\<lambda>e. mk (Some e)) es
            \<and> length es = sched t + 1 \<and> (\<forall>e\<in>set es. P e)"
proof -
  from r have "retry_attempts (sched t) f w = (Some TimeoutError, w1)" by (simp add: Retry_def)
  from retry_attempts_trace[of f P mk, OF f this] obtain es out where
    h: "calls w1 = calls w @ map (\<lambda>e. mk (Some e)) es @ [mk out]"
       "\<forall>e\<in>set es. P e"
       "Some TimeoutError = (case out of None \<Rightarrow> None | Some e \<Rightarrow> if P e then Some TimeoutError else Some (Remote e))"
       "length es = sched t" by auto
  then obtain e where "out = Some e" "P e" by (auto split: option.splits if_splits)
  with h show ?thesis by (intro exI[of _ "es @ [e]"]) auto
qed

lemma Put_attempt_step:
  "\<exists>out w'. resourceAwsConfigDeliveryChannelPut_attempt conn input w =
      ((case out of None \<Rightarrow> None
        | Some e \<Rightarrow> Some (if isAWSErr e ''InsufficientDeliveryPolicyException'' []
                         then RetryableError (Remote e) else NonRetryableError (Remote e))), w')
      \<and> calls w' = calls w @ [PutCall input out]"
  by (auto simp: resourceAwsConfigDeliveryChannelPut_attempt_def conn_PutDeliveryChannel_def
      split: prod.splits option.splits)

lemma Delete_attempt_step:
  "\<exists>out w'. resourceAwsConfigDeliveryChannelDelete_attempt conn input w =
      ((case out of None \<Rightarrow> None
        | Some e \<Rightarrow> Some (if isAWSErr e ErrCodeLastDeliveryChannelDeleteFailedException
                               ''there is a running configuration recorder''
                         then RetryableError (Remote e) else NonRetryableError (Remote e))), w')
      \<and> calls w' = calls w @ [DeleteCall input out]"
  by (auto simp: resourceAwsConfigDeliveryChannelDelete_attempt_def conn_DeleteDeliveryChannel_def
      split: prod.splits option.splits)

text \<open>
  The write phase of Put and the whole of Delete: every call but the last returned a
  retryable error, and the result is what the last call returned.
\<close>

lemma Put_write_trace:
  assumes "resourceAwsConfigDeliveryChannelPut_write sched PT conn input w = (r, w2)"
  shows "\<exists>es out. calls w2 = calls w @ map (\<lambda>e. PutCall input (Some e)) es @ [PutCall input out]
        \<and> (\<forall>e\<in>set es. isAWSErr e ''InsufficientDeliveryPolicyException'' [])
        \<and> r = map_option Remote out
        \<and> length es \<le> sched PT + 1
        \<and> (\<forall>e. out = Some e \<and> isAWSErr e ''InsufficientDeliveryPolicyException'' [] \<longrightarrow> length es = sched PT + 1)"
proof -
  obtain r1 w1 where R: "Retry sched PT (resourceAwsConfigDeliveryChannelPut_attempt conn input) w = (r1, w1)"
    by (cases "Retry sched PT (resourceAwsConfigDeliveryChannelPut_attempt conn input) w")
  then have "retry_attempts (sched PT) (resourceAwsConfigDeliveryChannelPut_attempt conn input) w = (r1, w1)"
    by (simp add: Retry_def)
  from retry_attempts_trace[where mk = "PutCall input" and P = "\<lambda>e. isAWSErr e ''InsufficientDeliveryPolicyException'' []", OF Put_attempt_step this]
  obtain es out where h: "calls w1 = calls w @ map (\<lambda>e. PutCall input (Some e)) es @ [PutCall input out]"
     "\<forall>e\<in>set es. isAWSErr e ''InsufficientDeliveryPolicyException'' []" "length es \<le> sched PT"
     "r1 = (case out of None \<Rightarrow> None | Some e \<Rightarrow> if isAWSErr e ''InsufficientDeliveryPolicyException'' [] then Some TimeoutError else Some (Remote e))"
     "r1 = Some TimeoutError \<longrightarrow> length es = sched PT" by blast
  show ?thesis
  proof (cases "r1 = Some TimeoutError")
    case False
    with assms R have "r = r1" "w2 = w1"
      by (auto simp: resourceAwsConfigDeliveryChannelPut_write_def isResourceTimeoutError_def)
    with h False show ?thesis
      by (intro exI[of _ es] exI[of _ out]) (auto split: option.splits if_splits)
  next
    case True
    with h obtain e where e: "out = Some e" "isAWSErr e ''InsufficientDeliveryPolicyException'' []"
      by (auto split: option.splits if_splits)
    obtain out' c where D: "PutDeliveryChannel conn input (remote w1) = (out', c)"
      by (cases "PutDeliveryChannel conn input (remote w1)")
    with True assms R have o: "r = map_option Remote out'" "calls w2 = calls w1 @ [PutCall input out']"
      by (auto simp: resourceAwsConfigDeliveryChannelPut_write_def isResourceTimeoutError_def conn_PutDeliveryChannel_def)
    with h e True show ?thesis
      by (intro exI[of _ "es @ [e]"] exI[of _ out']) auto
  qed
qed

lemma Delete_trace:
  assumes "resourceAwsConfigDeliveryChannelDelete sched conn d w = (r, w2)"
  shows "\<exists>es out. calls w2 = calls w @ map (\<lambda>e. DeleteCall (ID d) (Some e)) es @ [DeleteCall (ID d) out]
        \<and> (\<forall>e\<in>set es. isAWSErr e ErrCodeLastDeliveryChannelDeleteFailedException ''there is a running configuration recorder'')
        \<and> r = map_option (\<lambda>e. Errorf ''Unable to delete delivery channel: '' (Remote e)) out
        \<and> length es \<le> sched (30 * Second) + 1
        \<and> (\<forall>e. out = Some e \<and> isAWSErr e ErrCodeLastDeliveryChannelDeleteFailedException ''there is a running configuration recorder'' \<longrightarrow> length es = sched (30 * Second) + 1)"
proof -
  let ?P = "\<lambda>e. isAWSErr e ErrCodeLastDeliveryChannelDeleteFailedException ''there is a running configuration recorder''"
  obtain r1 w1 where R: "Retry sched (30 * Second) (resourceAwsConfigDeliveryChannelDelete_attempt conn (ID d)) w = (r1, w1)"
    by (cases "Retry sched (30 * Second) (resourceAwsConfigDeliveryChannelDelete_attempt conn (ID d)) w")
  then have "retry_attempts (sched (30 * Second)) (resourceAwsConfigDeliveryChannelDelete_attempt conn (ID d)) w = (r1, w1)"
    by (simp add: Retry_def)
  from retry_attempts_trace[where mk = "DeleteCall (ID d)" and P = ?P, OF Delete_attempt_step this]
  obtain es out where h: "calls w1 = calls w @ map (\<lambda>e. DeleteCall (ID d) (Some e)) es @ [DeleteCall (ID d) out]"
     "\<forall>e\<in>set es. ?P e" "length es \<le> sched (30 * Second)"
     "r1 = (case out of None \<Rightarrow> None | Some e \<Rightarrow> if ?P e then Some TimeoutError else Some (Remote e))"
     "r1 = Some TimeoutError \<longrightarrow> length es = sched (30 * Second)" by blast
  show ?thesis
  proof (cases "r1 = Some TimeoutError")
    case False
    with assms R have "r = map_option (Errorf ''Unable to delete delivery channel: '') r1" "w2 = w1"
      by (auto simp: resourceAwsConfigDeliveryChannelDelete_def isResourceTimeoutError_def split: option.splits)
    with h False show ?thesis
      by (intro exI[of _ es] exI[of _ out]) (auto split: option.splits if_splits)
  next
    case True
    with h obtain e where e: "out = Some e" "?P e"
      by (auto split: option.splits if_splits)
    obtain out' c where D: "DeleteDeliveryChannel conn (ID d) (remote w1) = (out', c)"
      by (cases "DeleteDeliveryChannel conn (ID d) (remote w1)")
    with True assms R have o: "r = map_option (\<lambda>e. Errorf ''Unable to delete delivery channel: '' (Remote e)) out'" "calls w2 = calls w1 @ [DeleteCall (ID d) out']"
      by (auto simp: resourceAwsConfigDeliveryChannelDelete_def isResourceTimeoutError_def conn_DeleteDeliveryChannel_def split: option.splits)
    with h e True show ?thesis
      by (intro exI[of _ "es @ [e]"] exI[of _ out']) auto
  qed
qed

lemma Put_trace:
  assumes ch: "resourceAwsConfigDeliveryChannelPut_channel d = Inr input"
      and put: "resourceAwsConfigDeliveryChannelPut sched PT conn d w = (err, d', w')"
  shows "\<exists>es out. (\<forall>e\<in>set es. isAWSErr e ''InsufficientDeliveryPolicyException'' [])
        \<and> length es \<le> sched PT + 1
        \<and> (\<forall>e. out = Some e \<and> isAWSErr e ''InsufficientDeliveryPolicyException'' [] \<longrightarrow> length es = sched PT + 1)
        \<and> (case out of
             Some e \<Rightarrow> calls w' = calls w @ map (\<lambda>e. PutCall input (Some e)) es @ [PutCall input (Some e)]
                       \<and> err = Some (Errorf ''Creating Delivery Channel failed: '' (Remote e)) \<and> d' = d
           | None \<Rightarrow> (\<exists>x. calls w' = calls w @ map (\<lambda>e. PutCall input (Some e)) es
                                @ [PutCall input None, DescribeCall [Get (name d)] x]))"
proof -
  obtain r w2 where W: "resourceAwsConfigDeliveryChannelPut_write sched PT conn input w = (r, w2)"
    by (cases "resourceAwsConfigDeliveryChannelPut_write sched PT conn input w")
  from Put_write_trace[OF W] obtain es out where
    h: "calls w2 = calls w @ map (\<lambda>e. PutCall input (Some e)) es @ [PutCall input out]"
       "\<forall>e\<in>set es. isAWSErr e ''InsufficientDeliveryPolicyException'' []"
       "r = map_option Remote out" "length es \<le> sched PT + 1"
       "\<forall>e. out = Some e \<and> isAWSErr e ''InsufficientDeliveryPolicyException'' [] \<longrightarrow> length es = sched PT + 1"
    by blast
  show ?thesis
  proof (cases out)
    case (Some e)
    with h ch put W have "calls w' = calls w2" "err = Some (Errorf ''Creating Delivery Channel failed: '' (Remote e))" "d' = d"
      by (auto simp: resourceAwsConfigDeliveryChannelPut_def)
    with h Some show ?thesis
      by (intro exI[of _ es] exI[of _ out]) auto
  next
    case None
    with h ch put W have R: "resourceAwsConfigDeliveryChannelRead conn (d\<lparr>ID := Get (name d)\<rparr>) w2 = (err, d', w')"
      by (auto simp: resourceAwsConfigDeliveryChannelPut_def)
    from Read_calls[of conn "d\<lparr>ID := Get (name d)\<rparr>" w2] R
    obtain x where "calls w' = calls w2 @ [DescribeCall [Get (name d)] x]" by auto
    with h None show ?thesis
      by (intro exI[of _ es] exI[of _ out]) auto
  qed
qed

text \<open>An element that is not among the earlier ones of a list is its last one.\<close>

lemma mid_is_last:
  assumes "pre @ [x] @ post = init @ [l]" and "x \<notin> set init"
  shows "post = [] \<and> pre = init \<and> x = l"
proof (cases post rule: rev_cases)
  case Nil
  with assms show ?thesis by simp
next
  case (snoc ys y)
  with assms have "(pre @ [x] @ ys) @ [y] = init @ [l]" by simp
  then have "pre @ [x] @ ys = init" by (simp only: append1_eq_conv)
  then have "x \<in> set init" by auto
  with assms show ?thesis by simp
qed

lemma Delete_no_timeout: "fst (resourceAwsConfigDeliveryChannelDelete sched conn d w) \<noteq> Some TimeoutError"
proof -
  obtain r w' where D: "resourceAwsConfigDeliveryChannelDelete sched conn d w = (r, w')"
    by (cases "resourceAwsConfigDeliveryChannelDelete sched conn d w")
  from Delete_trace[OF D] D show ?thesis by (auto split: option.splits)
qed

lemma Put_no_timeout: "fst (resourceAwsConfigDeliveryChannelPut sched PT conn d w) \<noteq> Some TimeoutError"
proof -
  obtain input where ch: "resourceAwsConfigDeliveryChannelPut_channel d = Inr input"
    using Put_channel_Inr by blast
  obtain r w2 where W: "resourceAwsConfigDeliveryChannelPut_write sched PT conn input w = (r, w2)"
    by (cases "resourceAwsConfigDeliveryChannelPut_write sched PT conn input w")
  show ?thesis
  proof (cases r)
    case None
    with ch W Read_calls[of conn "d\<lparr>ID := Get (name d)\<rparr>" w2] show ?thesis
      by (auto simp: resourceAwsConfigDeliveryChannelPut_def)
  next
    case (Some e)
    with ch W show ?thesis by (auto simp: resourceAwsConfigDeliveryChannelPut_def)
  qed
qed

section \<open>Retry, timeout and the final attempt\<close>

text \<open>
  C1. For Delete and for Put: when the retry policy returns its timeout error, it has
  made all the calls of its window and each of them returned a retryable error; the
  operation then makes exactly one more remote call. Delete returns the outcome of that
  call (its error wrapped, or success); Put returns its error wrapped, or on success goes
  on to the read-back with the identity set. Neither operation ever returns the timeout
  error itself.
\<close>

theorem timeout_then_one_final_attempt:
  "(Retry sched (30 * Second) (resourceAwsConfigDeliveryChannelDelete_attempt conn (ID d)) w
        = (Some TimeoutError, w1) \<longrightarrow>
      (\<exists>es. calls w1 = calls w @ map (\<lambda>e. DeleteCall (ID d) (Some e)) es
            \<and> length es = sched (30 * Second) + 1
            \<and> (\<forall>e\<in>set es. isAWSErr e ErrCodeLastDeliveryChannelDeleteFailedException
                               ''there is a running configuration recorder''))
      \<and> (\<exists>out c. DeleteDeliveryChannel conn (ID d) (remote w1) = (out, c)
            \<and> resourceAwsConfigDeliveryChannelDelete sched conn d w =
                (map_option (\<lambda>e. Errorf ''Unable to delete delivery channel: '' (Remote e)) out,
                 \<lparr>remote = c, calls = calls w1 @ [DeleteCall (ID d) out]\<rparr>)))
   \<and> (resourceAwsConfigDeliveryChannelPut_channel d = Inr input \<longrightarrow>
      Retry sched PT (resourceAwsConfigDeliveryChannelPut_attempt conn input) w
        = (Some TimeoutError, w1) \<longrightarrow>
      (\<exists>es. calls w1 = calls w @ map (\<lambda>e. PutCall input (Some e)) es
            \<and> length es = sched PT + 1
            \<and> (\<forall>e\<in>set es. isAWSErr e ''InsufficientDeliveryPolicyException'' []))
      \<and> (\<exists>out c. PutDeliveryChannel conn input (remote w1) = (out, c)
            \<and> resourceAwsConfigDeliveryChannelPut sched PT conn d w =
                (case out of
                   Some e \<Rightarrow>
                     (Some (Errorf ''Creating Delivery Channel failed: '' (Remote e)), d,
                      \<lparr>remote = c, calls = calls w1 @ [PutCall input out]\<rparr>)
                 | None \<Rightarrow>
                     resourceAwsConfigDeliveryChannelRead conn (d\<lparr>ID := Get (name d)\<rparr>)
                       \<lparr>remote = c, calls = calls w1 @ [PutCall input out]\<rparr>)))
   \<and> fst (resourceAwsConfigDeliveryChannelDelete sched conn d w) \<noteq> Some TimeoutError
   \<and> fst (resourceAwsConfigDeliveryChannelPut sched PT conn d w) \<noteq> Some TimeoutError"
proof (intro conjI impI)
  assume r: "Retry sched (30 * Second) (resourceAwsConfigDeliveryChannelDelete_attempt conn (ID d)) w
        = (Some TimeoutError, w1)"
  from retry_timeout_trace[of _ "\<lambda>e. isAWSErr e ErrCodeLastDeliveryChannelDeleteFailedException
                               ''there is a running configuration recorder''" "DeleteCall (ID d)", OF Delete_attempt_step r]
  show "\<exists>es. calls w1 = calls w @ map (\<lambda>e. DeleteCall (ID d) (Some e)) es
            \<and> length es = sched (30 * Second) + 1
            \<and> (\<forall>e\<in>set es. isAWSErr e ErrCodeLastDeliveryChannelDeleteFailedException
                               ''there is a running configuration recorder'')" .
  from r show "\<exists>out c. DeleteDeliveryChannel conn (ID d) (remote w1) = (out, c)
            \<and> resourceAwsConfigDeliveryChannelDelete sched conn d w =
                (map_option (\<lambda>e. Errorf ''Unable to delete delivery channel: '' (Remote e)) out,
                 \<lparr>remote = c, calls = calls w1 @ [DeleteCall (ID d) out]\<rparr>)"
    by (cases "DeleteDeliveryChannel conn (ID d) (remote w1)")
       (auto simp: resourceAwsConfigDeliveryChannelDelete_def isResourceTimeoutError_def
          conn_DeleteDeliveryChannel_def split: option.splits)
next
  assume ch: "resourceAwsConfigDeliveryChannelPut_channel d = Inr input"
    and r: "Retry sched PT (resourceAwsConfigDeliveryChannelPut_attempt conn input) w
        = (Some TimeoutError, w1)"
  from retry_timeout_trace[of _ "\<lambda>e. isAWSErr e ''InsufficientDeliveryPolicyException'' []" "PutCall input", OF Put_attempt_step r]
  show "\<exists>es. calls w1 = calls w @ map (\<lambda>e. PutCall input (Some e)) es
            \<and> length es = sched PT + 1
            \<and> (\<forall>e\<in>set es. isAWSErr e ''InsufficientDeliveryPolicyException'' [])" .
  from ch r show "\<exists>out c. PutDeliveryChannel conn input (remote w1) = (out, c)
            \<and> resourceAwsConfigDeliveryChannelPut sched PT conn d w =
                (case out of
                   Some e \<Rightarrow>
                     (Some (Errorf ''Creating Delivery Channel failed: '' (Remote e)), d,
                      \<lparr>remote = c, calls = calls w1 @ [PutCall input out]\<rparr>)
                 | None \<Rightarrow>
                     resourceAwsConfigDeliveryChannelRead conn (d\<lparr>ID := Get (name d)\<rparr>)
                       \<lparr>remote = c, calls = calls w1 @ [PutCall input out]\<rparr>)"
    by (cases "PutDeliveryChannel conn input (remote w1)")
       (auto simp: resourceAwsConfigDeliveryChannelPut_def resourceAwsConfigDeliveryChannelPut_write_def
          isResourceTimeoutError_def conn_PutDeliveryChannel_def split: option.splits)
qed (rule Delete_no_timeout Put_no_timeout)+

theorem timeout_then_one_final_attempt_witness:
  "Retry sched_sample (30 * Second)
     (resourceAwsConfigDeliveryChannelDelete_attempt
        (flaky_conn 5 err_recorder_running (Inr [])) ''default'') (world0 0) =
   (Some TimeoutError,
    \<lparr>remote = 2,
     calls = [DeleteCall ''default'' (Some err_recorder_running),
              DeleteCall ''default'' (Some err_recorder_running)]\<rparr>)
   \<and> resourceAwsConfigDeliveryChannelDelete sched_sample
       (flaky_conn 5 err_recorder_running (Inr [])) (spec_default\<lparr>ID := ''default''\<rparr>) (world0 0) =
     (Some (Errorf ''Unable to delete delivery channel: '' (Remote err_recorder_running)),
      \<lparr>remote = 3,
       calls = [DeleteCall ''default'' (Some err_recorder_running),
                DeleteCall ''default'' (Some err_recorder_running),
                DeleteCall ''default'' (Some err_recorder_running)]\<rparr>)
   \<and> resourceAwsConfigDeliveryChannelDelete sched_sample
       (flaky_conn 2 err_recorder_running (Inr [])) (spec_default\<lparr>ID := ''default''\<rparr>) (world0 0) =
     (None,
      \<lparr>remote = 3,
       calls = [DeleteCall ''default'' (Some err_recorder_running),
                DeleteCall ''default'' (Some err_recorder_running),
                DeleteCall ''default'' None]\<rparr>)
   \<and> Retry sched_sample (120 * Second)
     (resourceAwsConfigDeliveryChannelPut_attempt
        (flaky_conn 3 err_insufficient_policy (Inr [channel_default])) channel_default) (world0 0) =
   (Some TimeoutError,
    \<lparr>remote = 3,
     calls = [PutCall channel_default (Some err_insufficient_policy),
              PutCall channel_default (Some err_insufficient_policy),
              PutCall channel_default (Some err_insufficient_policy)]\<rparr>)
   \<and> resourceAwsConfigDeliveryChannelPut sched_sample (120 * Second)
       (flaky_conn 3 err_insufficient_policy (Inr [channel_default])) spec_default (world0 0) =
     (None, spec_default\<lparr>ID := ''default''\<rparr>,
      \<lparr>remote = 4,
       calls = [PutCall channel_default (Some err_insufficient_policy),
                PutCall channel_default (Some err_insufficient_policy),
                PutCall channel_default (Some err_insufficient_policy),
                PutCall channel_default None,
                DescribeCall [''default''] (Inr [channel_default])]\<rparr>)
   \<and> resourceAwsConfigDeliveryChannelPut sched_sample (120 * Second)
       (flaky_conn 5 err_insufficient_policy (Inr [channel_default])) spec_default (world0 0) =
     (Some (Errorf ''Creating Delivery Channel failed: '' (Remote err_insufficient_policy)),
      spec_default,
      \<lparr>remote = 4,
       calls = [PutCall channel_default (Some err_insufficient_policy),
                PutCall channel_default (Some err_insufficient_policy),
                PutCall channel_default (Some err_insufficient_policy),
                PutCall channel_default (Some err_insufficient_policy)]\<rparr>)"
proof -
  let ?d = "spec_default\<lparr>ID := ''default''\<rparr>"
  have id: "ID ?d = ''default''" by simp
  have r1: "Retry sched_sample (30 * Second)
     (resourceAwsConfigDeliveryChannelDelete_attempt
        (flaky_conn 5 err_recorder_running (Inr [])) (ID ?d)) (world0 0) =
   (Some TimeoutError,
    \<lparr>remote = 2,
     calls = [DeleteCall ''default'' (Some err_recorder_running),
              DeleteCall ''default'' (Some err_recorder_running)]\<rparr>)"
    by (simp add: op_defs sample_defs)
  have r2: "Retry sched_sample (30 * Second)
     (resourceAwsConfigDeliveryChannelDelete_attempt
        (flaky_conn 2 err_recorder_running (Inr [])) (ID ?d)) (world0 0) =
   (Some TimeoutError,
    \<lparr>remote = 2,
     calls = [DeleteCall ''default'' (Some err_recorder_running),
              DeleteCall ''default'' (Some err_recorder_running)]\<rparr>)"
    by (simp add: op_defs sample_defs)
  have ch: "resourceAwsConfigDeliveryChannelPut_channel spec_default = Inr channel_default"
    by (simp add: op_defs sample_defs)
  have r3: "Retry sched_sample (120 * Second)
     (resourceAwsConfigDeliveryChannelPut_attempt
        (flaky_conn n err_insufficient_policy (Inr [channel_default])) channel_default) (world0 0) =
   (Some TimeoutError,
    \<lparr>remote = 3,
     calls = [PutCall channel_default (Some err_insufficient_policy),
              PutCall channel_default (Some err_insufficient_policy),
              PutCall channel_default (Some err_insufficient_policy)]\<rparr>)" if "3 \<le> n" for n
    using that by (simp add: op_defs sample_defs)
  note t1 = timeout_then_one_final_attempt
      [where sched = sched_sample and conn = "flaky_conn 5 err_recorder_running (Inr [])"
         and d = ?d and w = "world0 0", THEN conjunct1, rule_format, OF r1, THEN conjunct2]
  note t2 = timeout_then_one_final_attempt
      [where sched = sched_sample and conn = "flaky_conn 2 err_recorder_running (Inr [])"
         and d = ?d and w = "world0 0", THEN conjunct1, rule_format, OF r2, THEN conjunct2]
  note t3 = timeout_then_one_final_attempt
      [where sched = sched_sample and conn = "flaky_conn 3 err_insufficient_policy (Inr [channel_default])"
         and d = spec_default and w = "world0 0" and PT = "120 * Second",
         THEN conjunct2, THEN conjunct1, rule_format, OF ch r3, THEN conjunct2]
  note t4 = timeout_then_one_final_attempt
      [where sched = sched_sample and conn = "flaky_conn 5 err_insufficient_policy (Inr [channel_default])"
         and d = spec_default and w = "world0 0" and PT = "120 * Second",
         THEN conjunct2, THEN conjunct1, rule_format, OF ch r3, THEN conjunct2]
  have a: "resourceAwsConfigDeliveryChannelDelete sched_sample
       (flaky_conn 5 err_recorder_running (Inr [])) ?d (world0 0) =
     (Some (Errorf ''Unable to delete delivery channel: '' (Remote err_recorder_running)),
      \<lparr>remote = 3,
       calls = [DeleteCall ''default'' (Some err_recorder_running),
                DeleteCall ''default'' (Some err_recorder_running),
                DeleteCall ''default'' (Some err_recorder_running)]\<rparr>)"
    using t1 by (auto simp: flaky_conn_def spec_default_def)
  have b: "resourceAwsConfigDeliveryChannelDelete sched_sample
       (flaky_conn 2 err_recorder_running (Inr [])) ?d (world0 0) =
     (None,
      \<lparr>remote = 3,
       calls = [DeleteCall ''default'' (Some err_recorder_running),
                DeleteCall ''default'' (Some err_recorder_running),
                DeleteCall ''default'' None]\<rparr>)"
    using t2 by (auto simp: flaky_conn_def spec_default_def)
  have c: "resourceAwsConfigDeliveryChannelPut sched_sample (120 * Second)
       (flaky_conn 3 err_insufficient_policy (Inr [channel_default])) spec_default (world0 0) =
     (None, spec_default\<lparr>ID := ''default''\<rparr>,
      \<lparr>remote = 4,
       calls = [PutCall channel_default (Some err_insufficient_policy),
                PutCall channel_default (Some err_insufficient_policy),
                PutCall channel_default (Some err_insufficient_policy),
                PutCall channel_default None,
                DescribeCall [''default''] (Inr [channel_default])]\<rparr>)"
    using t3
    by (auto simp: flaky_conn_def spec_default_def channel_default_def Get_def
          resourceAwsConfigDeliveryChannelRead_def conn_DescribeDeliveryChannels_def)
  have e: "resourceAwsConfigDeliveryChannelPut sched_sample (120 * Second)
       (flaky_conn 5 err_insufficient_policy (Inr [channel_default])) spec_default (world0 0) =
     (Some (Errorf ''Creating Delivery Channel failed: '' (Remote err_insufficient_policy)),
      spec_default,
      \<lparr>remote = 4,
       calls = [PutCall channel_default (Some err_insufficient_policy),
                PutCall channel_default (Some err_insufficient_policy),
                PutCall channel_default (Some err_insufficient_policy),
                PutCall channel_default (Some err_insufficient_policy)]\<rparr>)"
    using t4 by (auto simp: flaky_conn_def)
  from r1 r3[of 3] a b c e show ?thesis by simp
qed

text \<open>
  C7. Delete hands the retry policy a window of 30 seconds and consults the schedule at
  no other duration. A failed delete call is classified retryable exactly when the error
  has the code \<^verbatim>\<open>LastDeliveryChannelDeleteFailedException\<close> and its message contains
  \<^verbatim>\<open>there is a running configuration recorder\<close>. In the trace of Delete, a call that
  returned a retryable error within the window is followed by another call; a call that
  returned any other error is the last call, and Delete returns that error wrapped.
\<close>

theorem Delete_retry_policy:
  assumes del: "resourceAwsConfigDeliveryChannelDelete sched conn d w = (err, w')"
  shows
   "(\<forall>e c. DeleteDeliveryChannel conn (ID d) (remote w) = (Some e, c) \<longrightarrow>
        fst (resourceAwsConfigDeliveryChannelDelete_attempt conn (ID d) w) =
          Some (if (\<exists>m. e = AwsErr ErrCodeLastDeliveryChannelDeleteFailedException m
                        \<and> sublist ''there is a running configuration recorder'' m)
                then RetryableError (Remote e) else NonRetryableError (Remote e)))
    \<and> (\<forall>pre e post. calls w' = calls w @ pre @ [DeleteCall (ID d) (Some e)] @ post \<longrightarrow>
         (if (\<exists>m. e = AwsErr ErrCodeLastDeliveryChannelDeleteFailedException m
                   \<and> sublist ''there is a running configuration recorder'' m)
          then (length pre \<le> sched (30 * Second) \<longrightarrow> post \<noteq> [])
          else post = [] \<and> err = Some (Errorf ''Unable to delete delivery channel: '' (Remote e))))
    \<and> length (calls w') \<le> length (calls w) + sched (30 * Second) + 2
    \<and> resourceAwsConfigDeliveryChannelDelete (\<lambda>t. sched (30 * Second)) conn d w = (err, w')"
proof -
  let ?P = "\<lambda>e. isAWSErr e ErrCodeLastDeliveryChannelDeleteFailedException ''there is a running configuration recorder''"
  let ?mk = "\<lambda>e. DeleteCall (ID d) (Some e)"
  from Delete_trace[OF del] obtain es out where
    h: "calls w' = calls w @ map ?mk es @ [DeleteCall (ID d) out]"
       "\<forall>e\<in>set es. ?P e"
       "err = map_option (\<lambda>e. Errorf ''Unable to delete delivery channel: '' (Remote e)) out"
       "length es \<le> sched (30 * Second) + 1"
       "\<forall>e. out = Some e \<and> ?P e \<longrightarrow> length es = sched (30 * Second) + 1"
    by blast
  have A: "\<forall>e c. DeleteDeliveryChannel conn (ID d) (remote w) = (Some e, c) \<longrightarrow>
        fst (resourceAwsConfigDeliveryChannelDelete_attempt conn (ID d) w) =
          Some (if (\<exists>m. e = AwsErr ErrCodeLastDeliveryChannelDeleteFailedException m
                        \<and> sublist ''there is a running configuration recorder'' m)
                then RetryableError (Remote e) else NonRetryableError (Remote e))"
    by (auto simp: resourceAwsConfigDeliveryChannelDelete_attempt_def
          conn_DeleteDeliveryChannel_def isAWSErr_iff)
  have B: "if ?P e then (length pre \<le> sched (30 * Second) \<longrightarrow> post \<noteq> [])
           else post = [] \<and> err = Some (Errorf ''Unable to delete delivery channel: '' (Remote e))"
    if dec: "calls w' = calls w @ pre @ [?mk e] @ post" for pre e post
  proof (cases "?P e")
    case True
    have "post \<noteq> []" if len: "length pre \<le> sched (30 * Second)"
    proof
      assume "post = []"
      with dec h(1) have "pre @ [?mk e] = map ?mk es @ [DeleteCall (ID d) out]" by simp
      then have "pre = map ?mk es" "out = Some e" by auto
      with h(5) True len show False by auto
    qed
    with True show ?thesis by simp
  next
    case False
    from dec h(1) have eq: "pre @ [?mk e] @ post = map ?mk es @ [DeleteCall (ID d) out]" by simp
    from False h(2) have "?mk e \<notin> set (map ?mk es)" by auto
    from mid_is_last[OF eq this] have "post = []" "out = Some e" by auto
    with h(3) False show ?thesis by simp
  qed
  have C: "length (calls w') \<le> length (calls w) + sched (30 * Second) + 2"
    using h(1,4) by simp
  have D: "resourceAwsConfigDeliveryChannelDelete (\<lambda>t. sched (30 * Second)) conn d w = (err, w')"
    using del by (simp add: resourceAwsConfigDeliveryChannelDelete_def Retry_def)
  from A B C D show ?thesis by (simp add: isAWSErr_iff)
qed

theorem Delete_retry_policy_witness:
  "resourceAwsConfigDeliveryChannelDelete sched_sample
     (flaky_conn 5 err_recorder_running (Inr [])) (spec_default\<lparr>ID := ''default''\<rparr>) (world0 0) =
   (Some (Errorf ''Unable to delete delivery channel: '' (Remote err_recorder_running)),
    \<lparr>remote = 3,
     calls = [DeleteCall ''default'' (Some err_recorder_running),
              DeleteCall ''default'' (Some err_recorder_running),
              DeleteCall ''default'' (Some err_recorder_running)]\<rparr>)
   \<and> resourceAwsConfigDeliveryChannelDelete (\<lambda>t. sched_sample (30 * Second))
     (flaky_conn 5 err_recorder_running (Inr [])) (spec_default\<lparr>ID := ''default''\<rparr>) (world0 0) =
   (Some (Errorf ''Unable to delete delivery channel: '' (Remote err_recorder_running)),
    \<lparr>remote = 3,
     calls = [DeleteCall ''default'' (Some err_recorder_running),
              DeleteCall ''default'' (Some err_recorder_running),
              DeleteCall ''default'' (Some err_recorder_running)]\<rparr>)
   \<and> resourceAwsConfigDeliveryChannelDelete sched_sample
     (flaky_conn 5 err_last_channel_other (Inr [])) (spec_default\<lparr>ID := ''default''\<rparr>) (world0 0) =
   (Some (Errorf ''Unable to delete delivery channel: '' (Remote err_last_channel_other)),
    \<lparr>remote = 1, calls = [DeleteCall ''default'' (Some err_last_channel_other)]\<rparr>)
   \<and> resourceAwsConfigDeliveryChannelDelete sched_sample
     (flaky_conn 5 err_access_denied (Inr [])) (spec_default\<lparr>ID := ''default''\<rparr>) (world0 0) =
   (Some (Errorf ''Unable to delete delivery channel: '' (Remote err_access_denied)),
    \<lparr>remote = 1, calls = [DeleteCall ''default'' (Some err_access_denied)]\<rparr>)"
proof -
  have a: "resourceAwsConfigDeliveryChannelDelete sched_sample
     (flaky_conn 5 err_recorder_running (Inr [])) (spec_default\<lparr>ID := ''default''\<rparr>) (world0 0) =
   (Some (Errorf ''Unable to delete delivery channel: '' (Remote err_recorder_running)),
    \<lparr>remote = 3,
     calls = [DeleteCall ''default'' (Some err_recorder_running),
              DeleteCall ''default'' (Some err_recorder_running),
              DeleteCall ''default'' (Some err_recorder_running)]\<rparr>)"
    by (simp add: op_defs sample_defs)
  have b: "resourceAwsConfigDeliveryChannelDelete sched_sample
     (flaky_conn 5 err_last_channel_other (Inr [])) (spec_default\<lparr>ID := ''default''\<rparr>) (world0 0) =
   (Some (Errorf ''Unable to delete delivery channel: '' (Remote err_last_channel_other)),
    \<lparr>remote = 1, calls = [DeleteCall ''default'' (Some err_last_channel_other)]\<rparr>)"
    by (simp add: op_defs sample_defs)
  have c: "resourceAwsConfigDeliveryChannelDelete sched_sample
     (flaky_conn 5 err_access_denied (Inr [])) (spec_default\<lparr>ID := ''default''\<rparr>) (world0 0) =
   (Some (Errorf ''Unable to delete delivery channel: '' (Remote err_access_denied)),
    \<lparr>remote = 1, calls = [DeleteCall ''default'' (Some err_access_denied)]\<rparr>)"
    by (simp add: op_defs sample_defs)
  from Delete_retry_policy [OF a]
  have a': "resourceAwsConfigDeliveryChannelDelete (\<lambda>t. sched_sample (30 * Second))
     (flaky_conn 5 err_recorder_running (Inr [])) (spec_default\<lparr>ID := ''default''\<rparr>) (world0 0) =
   (Some (Errorf ''Unable to delete delivery channel: '' (Remote err_recorder_running)),
    \<lparr>remote = 3,
     calls = [DeleteCall ''default'' (Some err_recorder_running),
              DeleteCall ''default'' (Some err_recorder_running),
              DeleteCall ''default'' (Some err_recorder_running)]\<rparr>)"
    by (elim conjE)
  from a a' b c show ?thesis by (intro conjI)
qed

text \<open>
  C8. A failed put call is classified retryable exactly when the error is an AWS error
  with the code \<^verbatim>\<open>InsufficientDeliveryPolicyException\<close>. In the trace of Put, a call that
  returned a retryable error within the window is followed by another call; a call that
  returned any other error is the last remote call (no further put, no describe), the
  resource data is returned unchanged, and Put returns that error wrapped as
  \<^verbatim>\<open>Creating Delivery Channel failed\<close>.
\<close>

theorem Put_retry_policy:
  assumes ch: "resourceAwsConfigDeliveryChannelPut_channel d = Inr input"
      and put: "resourceAwsConfigDeliveryChannelPut sched PT conn d w = (err, d', w')"
  shows
   "(\<forall>e c. PutDeliveryChannel conn input (remote w) = (Some e, c) \<longrightarrow>
        fst (resourceAwsConfigDeliveryChannelPut_attempt conn input w) =
          Some (if (\<exists>m. e = AwsErr ''InsufficientDeliveryPolicyException'' m)
                then RetryableError (Remote e) else NonRetryableError (Remote e)))
    \<and> (\<forall>pre e post. calls w' = calls w @ pre @ [PutCall input (Some e)] @ post \<longrightarrow>
         (if (\<exists>m. e = AwsErr ''InsufficientDeliveryPolicyException'' m)
          then (length pre \<le> sched PT \<longrightarrow> post \<noteq> [])
          else post = [] \<and> d' = d
               \<and> err = Some (Errorf ''Creating Delivery Channel failed: '' (Remote e))))"
proof -
  let ?P = "\<lambda>e. isAWSErr e ''InsufficientDeliveryPolicyException'' []"
  let ?mk = "\<lambda>e. PutCall input (Some e)"
  from Put_trace[OF ch put] obtain es out where
    h: "\<forall>e\<in>set es. ?P e" "length es \<le> sched PT + 1"
       "\<forall>e. out = Some e \<and> ?P e \<longrightarrow> length es = sched PT + 1"
       "case out of
             Some e \<Rightarrow> calls w' = calls w @ map ?mk es @ [PutCall input (Some e)]
                       \<and> err = Some (Errorf ''Creating Delivery Channel failed: '' (Remote e)) \<and> d' = d
           | None \<Rightarrow> (\<exists>x. calls w' = calls w @ map ?mk es
                                @ [PutCall input None, DescribeCall [Get (name d)] x])"
    by blast
  have A: "\<forall>e c. PutDeliveryChannel conn input (remote w) = (Some e, c) \<longrightarrow>
        fst (resourceAwsConfigDeliveryChannelPut_attempt conn input w) =
          Some (if (\<exists>m. e = AwsErr ''InsufficientDeliveryPolicyException'' m)
                then RetryableError (Remote e) else NonRetryableError (Remote e))"
    by (auto simp: resourceAwsConfigDeliveryChannelPut_attempt_def
          conn_PutDeliveryChannel_def isAWSErr_iff)
  have B: "if ?P e then (length pre \<le> sched PT \<longrightarrow> post \<noteq> [])
           else post = [] \<and> d' = d
               \<and> err = Some (Errorf ''Creating Delivery Channel failed: '' (Remote e))"
    if dec: "calls w' = calls w @ pre @ [?mk e] @ post" for pre e post
  proof (cases out)
    case (Some e')
    with h(4) have c: "calls w' = calls w @ map ?mk es @ [?mk e']"
      and r: "err = Some (Errorf ''Creating Delivery Channel failed: '' (Remote e'))" "d' = d" by auto
    show ?thesis
    proof (cases "?P e")
      case True
      have "post \<noteq> []" if len: "length pre \<le> sched PT"
      proof
        assume "post = []"
        with dec c have "pre @ [?mk e] = map ?mk es @ [?mk e']" by simp
        then have "pre = map ?mk es" "e' = e" by auto
        with h(3) Some True len show False by auto
      qed
      with True show ?thesis by simp
    next
      case False
      from dec c have eq: "pre @ [?mk e] @ post = map ?mk es @ [?mk e']" by simp
      from False h(1) have "?mk e \<notin> set (map ?mk es)" by auto
      from mid_is_last[OF eq this] have "post = []" "e' = e" by auto
      with r False show ?thesis by simp
    qed
  next
    case None
    with h(4) obtain x where c: "calls w' = calls w @ map ?mk es @ [PutCall input None, DescribeCall [Get (name d)] x]"
      by auto
    from dec c have eq: "pre @ [?mk e] @ post = (map ?mk es @ [PutCall input None]) @ [DescribeCall [Get (name d)] x]"
      by simp
    show ?thesis
    proof (cases "?P e")
      case True
      have "post \<noteq> []"
      proof
        assume "post = []"
        with eq have "pre @ [?mk e] = (map ?mk es @ [PutCall input None]) @ [DescribeCall [Get (name d)] x]" by simp
        then have "?mk e = DescribeCall [Get (name d)] x" by (simp only: append1_eq_conv)
        then show False by simp
      qed
      with True show ?thesis by simp
    next
      case False
      from eq have "?mk e \<in> set ((map ?mk es @ [PutCall input None]) @ [DescribeCall [Get (name d)] x])"
        by (metis in_set_conv_decomp append_Cons append_Nil)
      with False h(1) show ?thesis by auto
    qed
  qed
  from A B show ?thesis by (simp add: isAWSErr_iff)
qed

theorem Put_retry_policy_witness:
  "resourceAwsConfigDeliveryChannelPut_channel spec_default = Inr channel_default
   \<and> resourceAwsConfigDeliveryChannelPut sched_sample (120 * Second)
       (flaky_conn 5 err_access_denied (Inr [channel_default])) spec_default (world0 0) =
     (Some (Errorf ''Creating Delivery Channel failed: '' (Remote err_access_denied)),
      spec_default,
      \<lparr>remote = 1, calls = [PutCall channel_default (Some err_access_denied)]\<rparr>)
   \<and> fst (resourceAwsConfigDeliveryChannelPut_attempt
            (flaky_conn 5 err_access_denied (Inr [channel_default])) channel_default (world0 0)) =
     Some (NonRetryableError (Remote err_access_denied))
   \<and> fst (resourceAwsConfigDeliveryChannelPut_attempt
            (flaky_conn 5 err_insufficient_policy (Inr [channel_default])) channel_default (world0 0)) =
     Some (RetryableError (Remote err_insufficient_policy))"
proof -
  have ch: "resourceAwsConfigDeliveryChannelPut_channel spec_default = Inr channel_default"
    by (simp add: op_defs sample_defs)
  have a: "resourceAwsConfigDeliveryChannelPut sched_sample (120 * Second)
       (flaky_conn 5 err_access_denied (Inr [channel_default])) spec_default (world0 0) =
     (Some (Errorf ''Creating Delivery Channel failed: '' (Remote err_access_denied)),
      spec_default,
      \<lparr>remote = 1, calls = [PutCall channel_default (Some err_access_denied)]\<rparr>)"
    by (simp add: op_defs sample_defs)
  have p: "PutDeliveryChannel (flaky_conn 5 err_access_denied (Inr [channel_default]))
             channel_default (remote (world0 0)) = (Some err_access_denied, 1)"
    by (simp add: sample_defs)
  from Put_retry_policy [OF ch a]
  have "\<forall>e c. PutDeliveryChannel (flaky_conn 5 err_access_denied (Inr [channel_default]))
             channel_default (remote (world0 0)) = (Some e, c) \<longrightarrow>
        fst (resourceAwsConfigDeliveryChannelPut_attempt
              (flaky_conn 5 err_access_denied (Inr [channel_default])) channel_default (world0 0)) =
          Some (if (\<exists>m. e = AwsErr ''InsufficientDeliveryPolicyException'' m)
                then RetryableError (Remote e) else NonRetryableError (Remote e))"
    by (elim conjE)
  with p have b: "fst (resourceAwsConfigDeliveryChannelPut_attempt
            (flaky_conn 5 err_access_denied (Inr [channel_default])) channel_default (world0 0)) =
     Some (NonRetryableError (Remote err_access_denied))"
    by (simp add: err_access_denied_def)
  have c: "fst (resourceAwsConfigDeliveryChannelPut_attempt
            (flaky_conn 5 err_insufficient_policy (Inr [channel_default])) channel_default (world0 0)) =
     Some (RetryableError (Remote err_insufficient_policy))"
    by (simp add: op_defs sample_defs)
  from ch a b c show ?thesis by (intro conjI)
qed

section \<open>Put and its read-back\<close>

text \<open>
  C4. The write phase of Put returns what its last remote put call returned. When that
  call succeeded, whether within the retry phase or as the attempt after the timeout, Put
  is Read on the resource data with the identity set to the name, started in the world
  the write left, and so makes the describe call; when it failed, Put returns an error.
  Put therefore returns success only after the read-back.
\<close>

theorem Put_success_reads_back:
  assumes ch: "resourceAwsConfigDeliveryChannelPut_channel d = Inr input"
      and wr: "resourceAwsConfigDeliveryChannelPut_write sched PT conn input w = (r, w2)"
  shows "\<exists>pre out. calls w2 = calls w @ pre @ [PutCall input out] \<and> r = map_option Remote out
        \<and> (out = None \<longrightarrow>
             resourceAwsConfigDeliveryChannelPut sched PT conn d w =
               resourceAwsConfigDeliveryChannelRead conn (d\<lparr>ID := Get (name d)\<rparr>) w2
             \<and> (\<exists>x. calls (snd (snd (resourceAwsConfigDeliveryChannelPut sched PT conn d w))) =
                      calls w2 @ [DescribeCall [Get (name d)] x]))
        \<and> (out \<noteq> None \<longrightarrow> fst (resourceAwsConfigDeliveryChannelPut sched PT conn d w) \<noteq> None)"
proof -
  from Put_write_trace[OF wr] obtain es out where
    h: "calls w2 = calls w @ map (\<lambda>e. PutCall input (Some e)) es @ [PutCall input out]"
       "r = map_option Remote out" by blast
  have A: "resourceAwsConfigDeliveryChannelPut sched PT conn d w =
               resourceAwsConfigDeliveryChannelRead conn (d\<lparr>ID := Get (name d)\<rparr>) w2" if "out = None"
    using that h ch wr by (simp add: resourceAwsConfigDeliveryChannelPut_def)
  have B: "\<exists>x. calls (snd (snd (resourceAwsConfigDeliveryChannelPut sched PT conn d w))) =
                      calls w2 @ [DescribeCall [Get (name d)] x]" if "out = None"
    using A[OF that] Read_calls[of conn "d\<lparr>ID := Get (name d)\<rparr>" w2] by auto
  have C: "fst (resourceAwsConfigDeliveryChannelPut sched PT conn d w) \<noteq> None" if "out \<noteq> None"
    using that h ch wr by (auto simp: resourceAwsConfigDeliveryChannelPut_def)
  from h A B C show ?thesis
    by (intro exI[of _ "map (\<lambda>e. PutCall input (Some e)) es"] exI[of _ out]) blast
qed

theorem Put_success_reads_back_witness:
  "resourceAwsConfigDeliveryChannelPut_channel spec_default = Inr channel_default
   \<and> resourceAwsConfigDeliveryChannelPut_write sched_sample (120 * Second)
       (flaky_conn 1 err_insufficient_policy (Inr [channel_default])) channel_default (world0 0) =
     (None,
      \<lparr>remote = 2,
       calls = [PutCall channel_default (Some err_insufficient_policy),
                PutCall channel_default None]\<rparr>)
   \<and> resourceAwsConfigDeliveryChannelPut sched_sample (120 * Second)
       (flaky_conn 1 err_insufficient_policy (Inr [channel_default])) spec_default (world0 0) =
     (None, spec_default\<lparr>ID := ''default''\<rparr>,
      \<lparr>remote = 2,
       calls = [PutCall channel_default (Some err_insufficient_policy),
                PutCall channel_default None,
                DescribeCall [''default''] (Inr [channel_default])]\<rparr>)"
proof -
  have ch: "resourceAwsConfigDeliveryChannelPut_channel spec_default = Inr channel_default"
    by (simp add: op_defs sample_defs)
  have wr: "resourceAwsConfigDeliveryChannelPut_write sched_sample (120 * Second)
       (flaky_conn 1 err_insufficient_policy (Inr [channel_default])) channel_default (world0 0) =
     (None,
      \<lparr>remote = 2,
       calls = [PutCall channel_default (Some err_insufficient_policy),
                PutCall channel_default None]\<rparr>)"
    by (simp add: op_defs sample_defs)
  have rd: "resourceAwsConfigDeliveryChannelRead
       (flaky_conn 1 err_insufficient_policy (Inr [channel_default]))
       (spec_default\<lparr>ID := Get (name spec_default)\<rparr>)
       \<lparr>remote = 2,
        calls = [PutCall channel_default (Some err_insufficient_policy),
                 PutCall channel_default None]\<rparr> =
     (None, spec_default\<lparr>ID := ''default''\<rparr>,
      \<lparr>remote = 2,
       calls = [PutCall channel_default (Some err_insufficient_policy),
                PutCall channel_default None,
                DescribeCall [''default''] (Inr [channel_default])]\<rparr>)"
    by (simp add: op_defs sample_defs)
  from Put_success_reads_back [OF ch wr] rd
  have "resourceAwsConfigDeliveryChannelPut sched_sample (120 * Second)
       (flaky_conn 1 err_insufficient_policy (Inr [channel_default])) spec_default (world0 0) =
     (None, spec_default\<lparr>ID := ''default''\<rparr>,
      \<lparr>remote = 2,
       calls = [PutCall channel_default (Some err_insufficient_policy),
                PutCall channel_default None,
                DescribeCall [''default''] (Inr [channel_default])]\<rparr>)"
    by auto
  with ch wr show ?thesis by (intro conjI)
qed

text \<open>
  C10. When the write phase of Put succeeded (its last put call returned no error) and
  the describe call of the read-back returns no object, or fails with the code
  \<^verbatim>\<open>NoSuchDeliveryChannelException\<close>, Put returns no error, with the stored identity
  cleared and the rest of the resource data as it was; the describe call is made once.
\<close>

theorem Put_read_back_absent:
  assumes ch: "resourceAwsConfigDeliveryChannelPut_channel d = Inr input"
      and wr: "resourceAwsConfigDeliveryChannelPut_write sched PT conn input w = (None, w2)"
      and de: "DescribeDeliveryChannels conn [Get (name d)] (remote w2) = (out, c)"
      and ab: "(\<exists>msg. out = Inl (AwsErr ''NoSuchDeliveryChannelException'' msg)) \<or> out = Inr []"
  shows "(\<exists>pre. calls w2 = calls w @ pre @ [PutCall input None])
       \<and> resourceAwsConfigDeliveryChannelPut sched PT conn d w =
           (None, d\<lparr>ID := []\<rparr>,
            \<lparr>remote = c, calls = calls w2 @ [DescribeCall [Get (name d)] out]\<rparr>)"
proof -
  from Put_write_trace[OF wr] have A: "\<exists>pre. calls w2 = calls w @ pre @ [PutCall input None]"
    by auto
  from ch wr have "resourceAwsConfigDeliveryChannelPut sched PT conn d w =
      resourceAwsConfigDeliveryChannelRead conn (d\<lparr>ID := Get (name d)\<rparr>) w2"
    by (simp add: resourceAwsConfigDeliveryChannelPut_def)
  also from de ab have "\<dots> = (None, d\<lparr>ID := []\<rparr>,
            \<lparr>remote = c, calls = calls w2 @ [DescribeCall [Get (name d)] out]\<rparr>)"
    by (auto simp: resourceAwsConfigDeliveryChannelRead_def conn_DescribeDeliveryChannels_def)
  finally show ?thesis using A by simp
qed

theorem Put_read_back_absent_witness:
  "resourceAwsConfigDeliveryChannelPut sched_sample (120 * Second)
       (flaky_conn 0 err_access_denied (Inr [])) spec_default (world0 0) =
     (None, spec_default,
      \<lparr>remote = 1,
       calls = [PutCall channel_default None, DescribeCall [''default''] (Inr [])]\<rparr>)
   \<and> resourceAwsConfigDeliveryChannelPut sched_sample (120 * Second)
       (flaky_conn 0 err_access_denied
          (Inl (AwsErr ''NoSuchDeliveryChannelException'' ''gone'')))
       (spec_default\<lparr>ID := ''default''\<rparr>) (world0 0) =
     (None, spec_default,
      \<lparr>remote = 1,
       calls = [PutCall channel_default None,
                DescribeCall [''default'']
                  (Inl (AwsErr ''NoSuchDeliveryChannelException'' ''gone''))]\<rparr>)"
proof -
  have ch: "resourceAwsConfigDeliveryChannelPut_channel spec_default = Inr channel_default"
    by (simp add: op_defs sample_defs)
  have ch': "resourceAwsConfigDeliveryChannelPut_channel (spec_default\<lparr>ID := ''default''\<rparr>)
               = Inr channel_default"
    by (simp add: op_defs sample_defs)
  have wr: "resourceAwsConfigDeliveryChannelPut_write sched_sample (120 * Second)
       (flaky_conn 0 err_access_denied out) channel_default (world0 0) =
     (None, \<lparr>remote = 1, calls = [PutCall channel_default None]\<rparr>)" for out
    by (simp add: op_defs sample_defs)
  have de: "DescribeDeliveryChannels (flaky_conn 0 err_access_denied out)
              [Get (name spec_default)]
              (remote \<lparr>remote = 1, calls = [PutCall channel_default None]\<rparr>) = (out, 1)" for out
    by (simp add: sample_defs)
  have de': "DescribeDeliveryChannels (flaky_conn 0 err_access_denied out)
              [Get (name (spec_default\<lparr>ID := ''default''\<rparr>))]
              (remote \<lparr>remote = 1, calls = [PutCall channel_default None]\<rparr>) = (out, 1)" for out
    by (simp add: sample_defs)
  have a: "resourceAwsConfigDeliveryChannelPut sched_sample (120 * Second)
       (flaky_conn 0 err_access_denied (Inr [])) spec_default (world0 0) =
     (None, spec_default,
      \<lparr>remote = 1,
       calls = [PutCall channel_default None, DescribeCall [''default''] (Inr [])]\<rparr>)"
    using Put_read_back_absent [OF ch wr de, of "Inr []"]
    by (simp add: spec_default_def Get_def)
  have b: "resourceAwsConfigDeliveryChannelPut sched_sample (120 * Second)
       (flaky_conn 0 err_access_denied
          (Inl (AwsErr ''NoSuchDeliveryChannelException'' ''gone'')))
       (spec_default\<lparr>ID := ''default''\<rparr>) (world0 0) =
     (None, spec_default,
      \<lparr>remote = 1,
       calls = [PutCall channel_default None,
                DescribeCall [''default'']
                  (Inl (AwsErr ''NoSuchDeliveryChannelException'' ''gone''))]\<rparr>)"
    using Put_read_back_absent [OF ch' wr de', of "Inl (AwsErr ''NoSuchDeliveryChannelException'' ''gone'')"]
    by (simp add: spec_default_def Get_def)
  from a b show ?thesis by (intro conjI)
qed

section \<open>Put against a service that stores one object per name\<close>

lemma Put_first_attempt_succeeds:
  assumes "PutDeliveryChannel conn input (remote w) = (None, c)"
  shows "resourceAwsConfigDeliveryChannelPut_write sched PT conn input w =
           (None, \<lparr>remote = c, calls = calls w @ [PutCall input None]\<rparr>)"
proof -
  from assms have "resourceAwsConfigDeliveryChannelPut_attempt conn input w =
       (None, \<lparr>remote = c, calls = calls w @ [PutCall input None]\<rparr>)"
    by (simp add: resourceAwsConfigDeliveryChannelPut_attempt_def conn_PutDeliveryChannel_def)
  then have "Retry sched PT (resourceAwsConfigDeliveryChannelPut_attempt conn input) w =
       (None, \<lparr>remote = c, calls = calls w @ [PutCall input None]\<rparr>)"
    by (cases "sched PT") (simp_all add: Retry_def)
  then show ?thesis
    by (simp add: resourceAwsConfigDeliveryChannelPut_write_def isResourceTimeoutError_def)
qed

lemma Put_on_store:
  assumes put: "\<And>ch n c. Name ch = Some n \<Longrightarrow>
                  \<exists>c'. PutDeliveryChannel conn ch c = (None, c') \<and> stored c' = (stored c)(n \<mapsto> ch)"
      and desc: "\<And>names c. \<exists>c'. DescribeDeliveryChannels conn names c =
                    (Inr (List.map_filter (stored c) names), c') \<and> stored c' = stored c"
      and ch: "resourceAwsConfigDeliveryChannelPut_channel d = Inr input"
  shows "\<exists>w'. resourceAwsConfigDeliveryChannelPut sched PT conn d w =
           (None,
            (case ConfigSnapshotDeliveryProperties input of
               None \<Rightarrow> d\<lparr>ID := Get (name d), name := Name input,
                        s3_bucket_name := S3BucketName input,
                        s3_key_prefix := S3KeyPrefix input,
                        s3_kms_key_arn := S3KmsKeyArn input,
                        sns_topic_arn := SnsTopicARN input\<rparr>
             | Some p \<Rightarrow> d\<lparr>ID := Get (name d), name := Name input,
                        s3_bucket_name := S3BucketName input,
                        s3_key_prefix := S3KeyPrefix input,
                        s3_kms_key_arn := S3KmsKeyArn input,
                        sns_topic_arn := SnsTopicARN input,
                        snapshot_delivery_properties := flattenConfigSnapshotDeliveryProperties p\<rparr>),
            w')
          \<and> stored (remote w') = (stored (remote w))(Get (name d) \<mapsto> input)"
proof -
  from ch have n: "Name input = Some (Get (name d))"
    by (auto simp: Put_channel_Inr)
  from put[OF n, of "remote w"] obtain c1 where
    p: "PutDeliveryChannel conn input (remote w) = (None, c1)"
       "stored c1 = (stored (remote w))(Get (name d) \<mapsto> input)" by blast
  let ?w2 = "\<lparr>remote = c1, calls = calls w @ [PutCall input None]\<rparr>"
  from Put_first_attempt_succeeds[OF p(1)] ch
  have P: "resourceAwsConfigDeliveryChannelPut sched PT conn d w =
      resourceAwsConfigDeliveryChannelRead conn (d\<lparr>ID := Get (name d)\<rparr>) ?w2"
    by (simp add: resourceAwsConfigDeliveryChannelPut_def)
  from desc[of "[Get (name d)]" c1] p(2) obtain c2 where
    q: "DescribeDeliveryChannels conn [ID (d\<lparr>ID := Get (name d)\<rparr>)] (remote ?w2) = (Inr [input], c2)"
       "stored c2 = stored c1"
    by (auto simp: List.map_filter_simps)
  from Read_one[OF q(1)] P p(2) q(2) show ?thesis
    by (auto split: option.splits)
qed

lemma Put_channel_after_Read:
  assumes ch: "resourceAwsConfigDeliveryChannelPut_channel d = Inr input"
  shows "resourceAwsConfigDeliveryChannelPut_channel
           (case ConfigSnapshotDeliveryProperties input of
               None \<Rightarrow> d\<lparr>ID := Get (name d), name := Name input,
                        s3_bucket_name := S3BucketName input,
                        s3_key_prefix := S3KeyPrefix input,
                        s3_kms_key_arn := S3KmsKeyArn input,
                        sns_topic_arn := SnsTopicARN input\<rparr>
             | Some p \<Rightarrow> d\<lparr>ID := Get (name d), name := Name input,
                        s3_bucket_name := S3BucketName input,
                        s3_key_prefix := S3KeyPrefix input,
                        s3_kms_key_arn := S3KmsKeyArn input,
                        sns_topic_arn := SnsTopicARN input,
                        snapshot_delivery_properties := flattenConfigSnapshotDeliveryProperties p\<rparr>)
         = Inr input"
  using ch
  by (auto simp: Put_channel_Inr GetOk_idem Get_def flattenConfigSnapshotDeliveryProperties_def
      split: option.splits list.splits)

text \<open>
  C9. Let the service keep one object per name (\<open>stored\<close> reads its state): put always
  succeeds and replaces the object under the name of its argument, describe returns the
  stored objects of the requested names and changes nothing. Then Put, called twice in
  succession for the same resource data, returns no error and the same resource data
  both times, and the second call leaves the stored objects as they were. The same holds
  when the second call is given the resource data the first call returned.
\<close>

theorem Put_twice_same_state:
  assumes put: "\<And>ch n c. Name ch = Some n \<Longrightarrow>
                  \<exists>c'. PutDeliveryChannel conn ch c = (None, c') \<and> stored c' = (stored c)(n \<mapsto> ch)"
      and desc: "\<And>names c. \<exists>c'. DescribeDeliveryChannels conn names c =
                    (Inr (List.map_filter (stored c) names), c') \<and> stored c' = stored c"
      and first: "resourceAwsConfigDeliveryChannelPut sched PT conn d w = (err1, d1, w1)"
      and second: "resourceAwsConfigDeliveryChannelPut sched PT conn d w1 = (err2, d2, w2)"
      and again: "resourceAwsConfigDeliveryChannelPut sched PT conn d1 w1 = (err3, d3, w3)"
  shows "err1 = None \<and> err2 = None \<and> d2 = d1 \<and> err3 = None \<and> d3 = d1
         \<and> stored (remote w2) = stored (remote w1) \<and> stored (remote w3) = stored (remote w1)"
proof -
  obtain input where ch: "resourceAwsConfigDeliveryChannelPut_channel d = Inr input"
    using Put_channel_Inr by blast
  let ?d1 = "(case ConfigSnapshotDeliveryProperties input of
               None \<Rightarrow> d\<lparr>ID := Get (name d), name := Name input,
                        s3_bucket_name := S3BucketName input,
                        s3_key_prefix := S3KeyPrefix input,
                        s3_kms_key_arn := S3KmsKeyArn input,
                        sns_topic_arn := SnsTopicARN input\<rparr>
             | Some p \<Rightarrow> d\<lparr>ID := Get (name d), name := Name input,
                        s3_bucket_name := S3BucketName input,
                        s3_key_prefix := S3KeyPrefix input,
                        s3_kms_key_arn := S3KmsKeyArn input,
                        sns_topic_arn := SnsTopicARN input,
                        snapshot_delivery_properties := flattenConfigSnapshotDeliveryProperties p\<rparr>)"
  from Put_on_store[of conn stored d input sched PT w, OF put desc ch] first
  have 1: "err1 = None" "d1 = ?d1" "stored (remote w1) = (stored (remote w))(Get (name d) \<mapsto> input)"
    by auto
  from Put_on_store[of conn stored d input sched PT w1, OF put desc ch] second
  have 2: "err2 = None" "d2 = ?d1" "stored (remote w2) = (stored (remote w1))(Get (name d) \<mapsto> input)"
    by auto
  have ch1: "resourceAwsConfigDeliveryChannelPut_channel d1 = Inr input"
    unfolding 1(2) by (rule Put_channel_after_Read[OF ch])
  have nm: "Get (name d1) = Get (name d)"
    using ch unfolding 1(2) by (auto simp: Put_channel_Inr Get_def split: option.splits)
  from Put_on_store[of conn stored d1 input sched PT w1, OF put desc ch1] again
  have 3: "err3 = None"
      "d3 = (case ConfigSnapshotDeliveryProperties input of
               None \<Rightarrow> d1\<lparr>ID := Get (name d1), name := Name input,
                        s3_bucket_name := S3BucketName input,
                        s3_key_prefix := S3KeyPrefix input,
                        s3_kms_key_arn := S3KmsKeyArn input,
                        sns_topic_arn := SnsTopicARN input\<rparr>
             | Some p \<Rightarrow> d1\<lparr>ID := Get (name d1), name := Name input,
                        s3_bucket_name := S3BucketName input,
                        s3_key_prefix := S3KeyPrefix input,
                        s3_kms_key_arn := S3KmsKeyArn input,
                        sns_topic_arn := SnsTopicARN input,
                        snapshot_delivery_properties := flattenConfigSnapshotDeliveryProperties p\<rparr>)"
      "stored (remote w3) = (stored (remote w1))(Get (name d1) \<mapsto> input)"
    by auto
  have d3: "d3 = d1"
    unfolding 3(2) nm unfolding 1(2) by (auto split: option.splits)
  from 1 2 3 d3 nm show ?thesis by auto
qed

theorem Put_twice_same_state_witness:
  "resourceAwsConfigDeliveryChannelPut sched_sample (120 * Second) echo_conn
     spec_hourly (world0 Map.empty) =
   (None, spec_hourly\<lparr>ID := ''default''\<rparr>,
    \<lparr>remote = [''default'' \<mapsto> channel_hourly],
     calls = [PutCall channel_hourly None,
              DescribeCall [''default''] (Inr [channel_hourly])]\<rparr>)
   \<and> fst (resourceAwsConfigDeliveryChannelPut sched_sample (120 * Second) echo_conn
       spec_hourly
       \<lparr>remote = [''default'' \<mapsto> channel_hourly],
        calls = [PutCall channel_hourly None,
                 DescribeCall [''default''] (Inr [channel_hourly])]\<rparr>) = None
   \<and> fst (snd (resourceAwsConfigDeliveryChannelPut sched_sample (120 * Second) echo_conn
       spec_hourly
       \<lparr>remote = [''default'' \<mapsto> channel_hourly],
        calls = [PutCall channel_hourly None,
                 DescribeCall [''default''] (Inr [channel_hourly])]\<rparr>))
       = spec_hourly\<lparr>ID := ''default''\<rparr>
   \<and> fst (snd (resourceAwsConfigDeliveryChannelPut sched_sample (120 * Second) echo_conn
       (spec_hourly\<lparr>ID := ''default''\<rparr>)
       \<lparr>remote = [''default'' \<mapsto> channel_hourly],
        calls = [PutCall channel_hourly None,
                 DescribeCall [''default''] (Inr [channel_hourly])]\<rparr>))
       = spec_hourly\<lparr>ID := ''default''\<rparr>"
proof -
  let ?w1 = "\<lparr>remote = [''default'' \<mapsto> channel_hourly],
        calls = [PutCall channel_hourly None,
                 DescribeCall [''default''] (Inr [channel_hourly])]\<rparr>"
  let ?d1 = "spec_hourly\<lparr>ID := ''default''\<rparr>"
  have put: "\<exists>c'. PutDeliveryChannel echo_conn ch c = (None, c') \<and> c' = c(n \<mapsto> ch)"
    if "Name ch = Some n" for ch n c
    using that by (simp add: echo_conn_def)
  have desc: "\<exists>c'. DescribeDeliveryChannels echo_conn names c =
                (Inr (List.map_filter c names), c') \<and> c' = c" for names c
    by (simp add: echo_conn_def)
  have first: "resourceAwsConfigDeliveryChannelPut sched_sample (120 * Second) echo_conn
     spec_hourly (world0 Map.empty) = (None, ?d1, ?w1)"
    by (simp add: op_defs sample_defs echo_conn_def List.map_filter_simps Let_def)
  obtain err2 d2 w2 where second:
    "resourceAwsConfigDeliveryChannelPut sched_sample (120 * Second) echo_conn spec_hourly ?w1
       = (err2, d2, w2)"
    by (cases "resourceAwsConfigDeliveryChannelPut sched_sample (120 * Second) echo_conn spec_hourly ?w1")
  obtain err3 d3 w3 where again:
    "resourceAwsConfigDeliveryChannelPut sched_sample (120 * Second) echo_conn ?d1 ?w1
       = (err3, d3, w3)"
    by (cases "resourceAwsConfigDeliveryChannelPut sched_sample (120 * Second) echo_conn ?d1 ?w1")
  from Put_twice_same_state [of echo_conn "\<lambda>s. s", OF put desc first second again]
  have "err2 = None" "d2 = ?d1" "d3 = ?d1" by auto
  with first second again show ?thesis by simp
qed

end
